theory Spec2Isabelle
  imports Main "HOL-Library.Word"
begin

section \<open>JavaScript strings\<close>

text \<open>
  The prompt component is TypeScript. A JavaScript string is a sequence of UTF-16 code
  units, and \<^verbatim>\<open>length\<close>, \<^verbatim>\<open>slice\<close>, \<^verbatim>\<open>trim\<close> and \<^verbatim>\<open>startsWith\<close> all count code
  units, so a string is a list of 16-bit words. \<open>js\<close> writes an ASCII literal.
\<close>

type_synonym jsstring = "16 word list"

definition js :: "string \<Rightarrow> jsstring" where
  "js s = map (\<lambda>c. of_char c) s"

text \<open>
  The characters matched by \<^verbatim>\<open>\s\<close> in a regular expression and removed by
  \<^verbatim>\<open>String.prototype.trim\<close>: ECMAScript's WhiteSpace and LineTerminator.
\<close>

definition is_space :: "16 word \<Rightarrow> bool" where
  "is_space c \<longleftrightarrow>
     c = 0x09 \<or> c = 0x0A \<or> c = 0x0B \<or> c = 0x0C \<or> c = 0x0D \<or> c = 0x20 \<or> c = 0xA0 \<or>
     c = 0x1680 \<or> (0x2000 \<le> c \<and> c \<le> 0x200A) \<or> c = 0x2028 \<or> c = 0x2029 \<or>
     c = 0x202F \<or> c = 0x205F \<or> c = 0x3000 \<or> c = 0xFEFF"

text \<open>\<^verbatim>\<open>s.trim()\<close>\<close>

definition trim :: "jsstring \<Rightarrow> jsstring" where
  "trim s = rev (dropWhile is_space (rev (dropWhile is_space s)))"

text \<open>\<^verbatim>\<open>s.startsWith(p)\<close>\<close>

definition startsWith :: "jsstring \<Rightarrow> jsstring \<Rightarrow> bool" where
  "startsWith s p \<longleftrightarrow> take (length p) s = p"

text \<open>
  \<^verbatim>\<open>s.replace(/\s+/g, " ")\<close>: every maximal run of white space becomes one space.
\<close>

function replace_ws_runs :: "jsstring \<Rightarrow> jsstring" where
  "replace_ws_runs [] = []"
| "replace_ws_runs (c # cs) =
     (if is_space c then 0x20 # replace_ws_runs (dropWhile is_space cs)
      else c # replace_ws_runs cs)"
  by pat_completeness auto
termination
  by (relation "measure length") (auto simp: length_dropWhile_le less_Suc_eq_le)

text \<open>
  \<^verbatim>\<open>s.slice(a, b)\<close> and \<^verbatim>\<open>s.slice(a)\<close> for offsets that are natural numbers: an offset
  beyond the end is clamped to the length, which is what \<open>take\<close> and \<open>drop\<close> do.
\<close>

definition slice :: "jsstring \<Rightarrow> nat \<Rightarrow> nat \<Rightarrow> jsstring" where
  "slice s a b = drop a (take b s)"

definition slice_from :: "jsstring \<Rightarrow> nat \<Rightarrow> jsstring" where
  "slice_from s a = drop a s"

section \<open>Queue preview\<close>

text \<open>
  \<^verbatim>\<open>
  function queuedPreview(inputText: string) {
    const oneLine = inputText.replace(/\s+/g, " ").trim()
    if (oneLine.length <= 80) return oneLine
    return oneLine.slice(0, 77) + "..."
  }
  \<close>
\<close>

definition oneLine :: "jsstring \<Rightarrow> jsstring" where
  "oneLine inputText = trim (replace_ws_runs inputText)"

definition queuedPreview :: "jsstring \<Rightarrow> jsstring" where
  "queuedPreview inputText =
     (if length (oneLine inputText) \<le> 80 then oneLine inputText
      else slice (oneLine inputText) 0 77 @ js ''...'')"

section \<open>Data model\<close>

text \<open>
  A prompt part is a pasted text (\<^verbatim>\<open>type: "text"\<close>, shown in the buffer as a short
  placeholder and carrying the full text), a file or an agent mention. Each may carry the
  range of its placeholder in the buffer (\<^verbatim>\<open>source.text\<close> for text and file parts,
  \<^verbatim>\<open>source\<close> for agent parts).
\<close>

record text_range =
  range_start :: nat
  range_end :: nat
  range_value :: jsstring

datatype part =
    TextPart jsstring "text_range option"
  | FilePart jsstring "jsstring option" jsstring "text_range option"
  | AgentPart jsstring "text_range option"

fun is_text :: "part \<Rightarrow> bool" where
  "is_text (TextPart t r) = True"
| "is_text (FilePart m f u r) = False"
| "is_text (AgentPart n r) = False"

fun is_file :: "part \<Rightarrow> bool" where
  "is_file (TextPart t r) = False"
| "is_file (FilePart m f u r) = True"
| "is_file (AgentPart n r) = False"

fun part_source :: "part \<Rightarrow> text_range option" where
  "part_source (TextPart t r) = r"
| "part_source (FilePart m f u r) = r"
| "part_source (AgentPart n r) = r"

fun set_part_source :: "part \<Rightarrow> text_range option \<Rightarrow> part" where
  "set_part_source (TextPart t r) r' = TextPart t r'"
| "set_part_source (FilePart m f u r) r' = FilePart m f u r'"
| "set_part_source (AgentPart n r) r' = AgentPart n r'"

text \<open>
  An extmark is a marker of the text buffer: an id and the half-open range it covers.
  Offsets are positions in the buffer, so they are natural numbers.
\<close>

record extmark =
  em_id :: nat
  em_start :: nat
  em_end :: nat

text \<open>
  \<^verbatim>\<open>
  type QueuedPrompt = {
    id: string
    sessionID: string
    inputText: string
    parts: PromptInfo["parts"]
    agent: string
    model: { providerID: string; modelID: string }
    variant?: string
  }
  \<close>
  Ids come from \<^verbatim>\<open>Identifier.ascending\<close> (\<open>Identifier_ascending\<close> below): they are drawn
  from a counter of the state, so an id is a natural number.
\<close>

record queued_prompt =
  qp_id :: nat
  qp_sessionID :: string
  qp_inputText :: jsstring
  qp_parts :: "part list"
  qp_agent :: string
  qp_model :: "string \<times> string"
  qp_variant :: "string option"

datatype status_type = Idle | Busy | Retry

datatype prompt_mode = Normal | Shell

text \<open>\<^verbatim>\<open>"open" | "paused" | "wait_busy" | "wait_idle"\<close>\<close>

datatype gate = Open | Paused | WaitBusy | WaitIdle

subsection \<open>Calls to collaborators\<close>

text \<open>
  Everything the component asks of its collaborators (the SDK client, toasts, dialogs,
  history, the router) is appended to a log, in the order of the calls. The argument of
  \<^verbatim>\<open>sendPrompt\<close> is a record; the ids that \<^verbatim>\<open>sendPrompt\<close> draws for the parts of the
  request are not recorded.
\<close>

record send_input =
  si_sessionID :: string
  si_model :: "string \<times> string"
  si_variant :: "string option"
  si_agent :: string
  si_inputText :: jsstring
  si_parts :: "part list"
  si_messageID :: "nat option"

datatype toast_variant = ToastInfo | ToastSuccess | ToastWarning | ToastError

datatype toast_message =
    ConnectProvider
  | QueuedForEndOfLoop nat
  | FailedToSendQueuedPrompt
  | QueuedMessageUpdated

datatype call =
    SessionPrompt send_input
  | SessionShell string string "string \<times> string" jsstring
  | SessionCommand string jsstring jsstring string "string \<times> string" nat "string option" "part list"
  | SessionCreate
  | SessionAbort string
  | Toast toast_variant toast_message nat
  | DialogProviderConnect
  | HistoryAppend jsstring "part list" prompt_mode
  | OnSubmit
  | Exit
  | ShowUsage jsstring
  | ShowCodexWho
  | ShowCodexSwap jsstring
  | Navigate string

subsection \<open>State of the prompt component\<close>

text \<open>
  The props and the collaborators' values that the component reads, the markers of the
  text buffer, the store, the signals, and the bookkeeping of the model: the id counters,
  the number of queued sends whose promise has not settled, the number of pending
  interrupt timers, and the log of calls.
\<close>

record prompt_state =
  props_disabled :: bool
  props_sessionID :: "string option"
  sync_session_status :: "string \<rightharpoonup> status_type"
  sync_provider_count :: nat
  sync_commands :: "jsstring list"
  sdk_created_session :: string
  autocomplete_visible :: bool
  input_focused :: bool
  local_model_current :: "(string \<times> string) option"
  local_agent_current :: string
  local_variant_current :: "string option"
  input_extmarks :: "extmark list"
  next_extmark_id :: nat
  store_prompt_input :: jsstring
  store_prompt_parts :: "part list"
  store_mode :: prompt_mode
  store_extmarkToPartIndex :: "nat \<rightharpoonup> nat"
  store_interrupt :: nat
  queuedPrompts :: "queued_prompt list"
  sendingQueuedPrompt :: bool
  queuedEditID :: "nat option"
  queuedCursor :: "nat option"
  queueGate :: gate
  next_id :: nat
  pending_sends :: nat
  pending_interrupt_timers :: nat
  calls :: "call list"

text \<open>
  The state of a freshly mounted component: empty store, no queued prompt, gate open
  (the initial values of \<^verbatim>\<open>createStore\<close> and \<^verbatim>\<open>createSignal\<close>). The props and the
  collaborators' values are arguments.
\<close>

definition initial :: "bool \<Rightarrow> string option \<Rightarrow> (string \<rightharpoonup> status_type) \<Rightarrow>
    (string \<times> string) option \<Rightarrow> string \<Rightarrow> prompt_state" where
  "initial disabled sessionID statuses model agent =
     \<lparr> props_disabled = disabled, props_sessionID = sessionID,
       sync_session_status = statuses, sync_provider_count = 1, sync_commands = [],
       sdk_created_session = ''new'', autocomplete_visible = False, input_focused = True,
       local_model_current = model, local_agent_current = agent,
       local_variant_current = None, input_extmarks = [], next_extmark_id = 1,
       store_prompt_input = [], store_prompt_parts = [], store_mode = Normal,
       store_extmarkToPartIndex = Map.empty, store_interrupt = 0,
       queuedPrompts = [], sendingQueuedPrompt = False, queuedEditID = None,
       queuedCursor = None, queueGate = Open, next_id = 0, pending_sends = 0,
       pending_interrupt_timers = 0, calls = [] \<rparr>"

text \<open>
  Modelled from the spec: \<^verbatim>\<open>Identifier.ascending\<close> (the module \<^verbatim>\<open>@/id/id\<close>, which is
  not among the source files) gives the id of a new message or queued prompt; a queued
  prompt is appended "with a fresh id". The id is the value of the counter \<open>next_id\<close>,
  and the caller moves the counter on.
\<close>

definition Identifier_ascending :: "prompt_state \<Rightarrow> nat" where
  "Identifier_ascending st = next_id st"

text \<open>\<^verbatim>\<open>!props.sessionID\<close>: undefined and the empty string are falsy.\<close>

definition no_session :: "prompt_state \<Rightarrow> bool" where
  "no_session st \<longleftrightarrow> (case props_sessionID st of None \<Rightarrow> True | Some s \<Rightarrow> s = [])"

text \<open>
  \<^verbatim>\<open>props.sessionID ?? ""\<close> is \<open>current_session\<close>.
  \<^verbatim>\<open>
  const status = createMemo(() => sync.data.session_status?.[props.sessionID ?? ""] ?? { type: "idle" })
  \<close>
\<close>

definition current_session :: "prompt_state \<Rightarrow> string" where
  "current_session st = (case props_sessionID st of None \<Rightarrow> [] | Some s \<Rightarrow> s)"

definition status :: "prompt_state \<Rightarrow> status_type" where
  "status st =
     (case sync_session_status st (current_session st) of
        None \<Rightarrow> Idle
      | Some t \<Rightarrow> t)"

text \<open>
  \<^verbatim>\<open>
  const queuedPromptsForSession = createMemo(() => {
    const sessionID = props.sessionID
    if (!sessionID) return []
    return queuedPrompts().filter((item) => item.sessionID === sessionID)
  })
  const queuedPromptsForSessionNewest = createMemo(() => queuedPromptsForSession().slice().reverse())
  const editingQueuedPrompt = createMemo(() => {
    const id = queuedEditID()
    if (!id) return
    return queuedPromptsForSession().find((item) => item.id === id)
  })
  \<close>
\<close>

definition queuedPromptsForSession :: "prompt_state \<Rightarrow> queued_prompt list" where
  "queuedPromptsForSession st =
     (if no_session st then []
      else filter (\<lambda>item. Some (qp_sessionID item) = props_sessionID st) (queuedPrompts st))"

definition queuedPromptsForSessionNewest :: "prompt_state \<Rightarrow> queued_prompt list" where
  "queuedPromptsForSessionNewest st = rev (queuedPromptsForSession st)"

definition editingQueuedPrompt :: "prompt_state \<Rightarrow> queued_prompt option" where
  "editingQueuedPrompt st =
     (case queuedEditID st of
        None \<Rightarrow> None
      | Some i \<Rightarrow> find (\<lambda>item. qp_id item = i) (queuedPromptsForSession st))"

section \<open>Composition: markers and parts\<close>

text \<open>
  \<^verbatim>\<open>restoreExtmarksFromParts(parts)\<close> clears the markers and the index, and creates a
  marker for every part that carries a source range with a non-empty placeholder text,
  mapping the new marker to the part's index. The buffer gives the new marker its id
  (\<open>next_extmark_id\<close>).
\<close>

fun restore_parts :: "part list \<Rightarrow> nat \<Rightarrow> prompt_state \<Rightarrow> prompt_state" where
  "restore_parts [] partIndex st = st"
| "restore_parts (p # ps) partIndex st =
     restore_parts ps (Suc partIndex)
       (case part_source p of
          None \<Rightarrow> st
        | Some r \<Rightarrow>
            if range_value r = [] then st
            else st\<lparr> input_extmarks := input_extmarks st @
                       [\<lparr> em_id = next_extmark_id st, em_start = range_start r,
                          em_end = range_end r \<rparr>],
                     next_extmark_id := Suc (next_extmark_id st),
                     store_extmarkToPartIndex :=
                       (store_extmarkToPartIndex st)(next_extmark_id st \<mapsto> partIndex) \<rparr>)"

definition restoreExtmarksFromParts :: "part list \<Rightarrow> prompt_state \<Rightarrow> prompt_state" where
  "restoreExtmarksFromParts ps st =
     restore_parts ps 0 (st\<lparr> input_extmarks := [], store_extmarkToPartIndex := Map.empty \<rparr>)"

text \<open>
  \<^verbatim>\<open>syncExtmarksWithPromptParts()\<close> rebuilds the part list from the markers that are
  left: a marker that is mapped to an existing part keeps the part, with its source range
  moved to the marker's extent, and is renumbered; every other part is dropped. Parts are
  values here: two markers mapped to one part index give two copies of the part.
\<close>

definition move_source :: "part \<Rightarrow> extmark \<Rightarrow> part" where
  "move_source p e =
     (case part_source p of
        None \<Rightarrow> p
      | Some r \<Rightarrow> set_part_source p
          (Some (r\<lparr> range_start := em_start e, range_end := em_end e \<rparr>)))"

fun sync_extmarks :: "extmark list \<Rightarrow> (nat \<rightharpoonup> nat) \<Rightarrow> part list \<Rightarrow>
    (nat \<rightharpoonup> nat) \<times> part list \<Rightarrow> (nat \<rightharpoonup> nat) \<times> part list" where
  "sync_extmarks [] m ps acc = acc"
| "sync_extmarks (e # es) m ps (newMap, newParts) =
     (case m (em_id e) of
        None \<Rightarrow> sync_extmarks es m ps (newMap, newParts)
      | Some partIndex \<Rightarrow>
          if partIndex < length ps
          then sync_extmarks es m ps
                 (newMap(em_id e \<mapsto> length newParts), newParts @ [move_source (ps ! partIndex) e])
          else sync_extmarks es m ps (newMap, newParts))"

definition syncExtmarksWithPromptParts :: "prompt_state \<Rightarrow> prompt_state" where
  "syncExtmarksWithPromptParts st =
     (let (newMap, newParts) =
            sync_extmarks (input_extmarks st) (store_extmarkToPartIndex st)
              (store_prompt_parts st) (Map.empty, [])
      in st\<lparr> store_extmarkToPartIndex := newMap, store_prompt_parts := newParts \<rparr>)"

text \<open>
  \<^verbatim>\<open>
  function resolvePromptInput() {
    let inputText = store.prompt.input
    const allExtmarks = input.extmarks.getAllForTypeId(promptPartTypeId)
    const sortedExtmarks = allExtmarks.sort((a, b) => b.start - a.start)

    for (const extmark of sortedExtmarks) {
      const partIndex = store.extmarkToPartIndex.get(extmark.id)
      if (partIndex !== undefined) {
        const part = store.prompt.parts[partIndex]
        if (part?.type === "text" && part.text) {
          const before = inputText.slice(0, extmark.start)
          const after = inputText.slice(extmark.end)
          inputText = before + part.text + after
        }
      }
    }

    return {
      inputText,
      nonTextParts: store.prompt.parts.filter((part) => part.type !== "text"),
    }
  }
  \<close>
  \<^verbatim>\<open>Array.prototype.sort\<close> is stable, and so is \<open>sort_key\<close>; the comparator orders by
  start, descending.
\<close>

definition sortedExtmarks :: "extmark list \<Rightarrow> extmark list" where
  "sortedExtmarks allExtmarks = sort_key (\<lambda>e. - int (em_start e)) allExtmarks"

text \<open>
  The text that the loop body splices in for a marker: the text of the part it is mapped
  to, when that part exists, is a text part and its text is not empty.
\<close>

definition expansion_of :: "(nat \<rightharpoonup> nat) \<Rightarrow> part list \<Rightarrow> extmark \<Rightarrow> jsstring option" where
  "expansion_of m ps e =
     (case m (em_id e) of
        None \<Rightarrow> None
      | Some partIndex \<Rightarrow>
          if partIndex < length ps
          then (case ps ! partIndex of
                  TextPart t r \<Rightarrow> if t \<noteq> [] then Some t else None
                | FilePart mi f u r \<Rightarrow> None
                | AgentPart n r \<Rightarrow> None)
          else None)"

fun splice_extmarks :: "extmark list \<Rightarrow> (nat \<rightharpoonup> nat) \<Rightarrow> part list \<Rightarrow> jsstring \<Rightarrow> jsstring" where
  "splice_extmarks [] m ps inputText = inputText"
| "splice_extmarks (e # es) m ps inputText =
     splice_extmarks es m ps
       (case expansion_of m ps e of
          None \<Rightarrow> inputText
        | Some t \<Rightarrow> slice inputText 0 (em_start e) @ t @ slice_from inputText (em_end e))"

record resolved =
  inputText :: jsstring
  nonTextParts :: "part list"

definition resolvePromptInput :: "prompt_state \<Rightarrow> resolved" where
  "resolvePromptInput st =
     \<lparr> inputText = splice_extmarks (sortedExtmarks (input_extmarks st))
                     (store_extmarkToPartIndex st) (store_prompt_parts st) (store_prompt_input st),
       nonTextParts = filter (\<lambda>p. \<not> is_text p) (store_prompt_parts st) \<rparr>"

text \<open>
  \<^verbatim>\<open>
  function clearPrompt() {
    input.extmarks.clear()
    input.clear()
    setStore("prompt", { input: "", parts: [] })
    setStore("extmarkToPartIndex", new Map())
    props.onSubmit?.()
  }
  \<close>
\<close>

definition clearPrompt :: "prompt_state \<Rightarrow> prompt_state" where
  "clearPrompt st =
     st\<lparr> input_extmarks := [], store_prompt_input := [], store_prompt_parts := [],
         store_extmarkToPartIndex := Map.empty, calls := calls st @ [OnSubmit] \<rparr>"

text \<open>
  \<^verbatim>\<open>promptModelWarning()\<close>: a warning toast, and the provider dialog when no provider
  is connected.
\<close>

definition promptModelWarning :: "prompt_state \<Rightarrow> prompt_state" where
  "promptModelWarning st =
     st\<lparr> calls := calls st @ [Toast ToastWarning ConnectProvider 3000] @
            (if sync_provider_count st = 0 then [DialogProviderConnect] else []) \<rparr>"

text \<open>
  The text area's \<^verbatim>\<open>onContentChange\<close>: the buffer reports its new plain text and the
  extents of the markers that survive the edit; the store takes the text and the parts
  are synchronised with the markers.
\<close>

definition onContentChange :: "jsstring \<Rightarrow> extmark list \<Rightarrow> prompt_state \<Rightarrow> prompt_state" where
  "onContentChange plainText marks st =
     syncExtmarksWithPromptParts (st\<lparr> input_extmarks := marks, store_prompt_input := plainText \<rparr>)"

section \<open>Tail queue and navigator\<close>

text \<open>
  \<^verbatim>\<open>sendPrompt(input)\<close> hands the request to \<^verbatim>\<open>sdk.client.session.prompt\<close> and returns
  its promise.
\<close>

definition sendPrompt :: "send_input \<Rightarrow> prompt_state \<Rightarrow> prompt_state" where
  "sendPrompt input st = st\<lparr> calls := calls st @ [SessionPrompt input] \<rparr>"

text \<open>
  \<^verbatim>\<open>
  function editQueued(direction: -1 | 1) {
    if (props.disabled) return
    if (!props.sessionID) return
    if (store.mode !== "normal") return

    const list = queuedPromptsForSessionNewest()
    if (list.length === 0) return

    const current = queuedCursor()
    const next = (() => {
      if (current === undefined) return direction === -1 ? 0 : list.length - 1
      const index = current + direction
      if (index < 0) return list.length - 1
      if (index >= list.length) return 0
      return index
    })()

    const target = list[next]
    if (!target) return

    setQueuedCursor(next)
    setQueuedEditID(target.id)
    input.setText(target.inputText)
    setStore("prompt", { input: target.inputText, parts: target.parts })
    restoreExtmarksFromParts(target.parts)
    input.gotoBufferEnd()
  }
  \<close>
\<close>

definition next_cursor :: "nat option \<Rightarrow> int \<Rightarrow> nat \<Rightarrow> int" where
  "next_cursor current direction len =
     (case current of
        None \<Rightarrow> if direction = - 1 then 0 else int len - 1
      | Some c \<Rightarrow>
          let index = int c + direction in
          if index < 0 then int len - 1
          else if index \<ge> int len then 0
          else index)"

definition editQueued :: "int \<Rightarrow> prompt_state \<Rightarrow> prompt_state" where
  "editQueued direction st =
     (if props_disabled st then st
      else if no_session st then st
      else if store_mode st \<noteq> Normal then st
      else
        let list = queuedPromptsForSessionNewest st in
        if length list = 0 then st
        else
          let next = next_cursor (queuedCursor st) direction (length list) in
          if next < 0 \<or> int (length list) \<le> next then st
          else
            let target = list ! nat next in
            restoreExtmarksFromParts (qp_parts target)
              (st\<lparr> queuedCursor := Some (nat next), queuedEditID := Some (qp_id target),
                   store_prompt_input := qp_inputText target,
                   store_prompt_parts := qp_parts target \<rparr>))"

text \<open>
  The in-place edit of \<^verbatim>\<open>submit\<close>:
  \<^verbatim>\<open>
  list.map((item) => item.id === queuedEditing.id ? { ...item, inputText, parts: nonTextParts } : item)
  \<close>
\<close>

definition editInPlace :: "nat \<Rightarrow> jsstring \<Rightarrow> part list \<Rightarrow> queued_prompt list \<Rightarrow> queued_prompt list" where
  "editInPlace i newText newParts list =
     map (\<lambda>item. if qp_id item = i then item\<lparr> qp_inputText := newText, qp_parts := newParts \<rparr>
                  else item) list"

text \<open>
  The removal of the dispatcher:
  \<^verbatim>\<open>
  const index = list.findIndex((item) => item.id === next.id)
  if (index < 0) return list
  return [...list.slice(0, index), ...list.slice(index + 1)]
  \<close>
\<close>

fun removeByID :: "nat \<Rightarrow> queued_prompt list \<Rightarrow> queued_prompt list" where
  "removeByID i [] = []"
| "removeByID i (item # list) = (if qp_id item = i then list else item # removeByID i list)"

section \<open>Submitting\<close>

text \<open>
  The tail of \<^verbatim>\<open>submit\<close>, from the model check on: the direct send. Without a session
  one is created first; the model takes the creation and the rest of the function as one
  step. The slash command is recognised on the first word of the first line.
\<close>

definition first_line :: "jsstring \<Rightarrow> jsstring" where
  "first_line s = takeWhile (\<lambda>c. c \<noteq> 0x0A) s"

definition first_word :: "jsstring \<Rightarrow> jsstring" where
  "first_word s = takeWhile (\<lambda>c. c \<noteq> 0x20) s"

definition is_known_command :: "prompt_state \<Rightarrow> jsstring \<Rightarrow> bool" where
  "is_known_command st text \<longleftrightarrow>
     startsWith text (js ''/'') \<and> drop 1 (first_word (first_line text)) \<in> set (sync_commands st)"

definition command_arguments :: "jsstring \<Rightarrow> jsstring" where
  "command_arguments text =
     (let firstLine = first_line text;
          restOfInput = drop (Suc (length firstLine)) text
      in drop (Suc (length (first_word firstLine))) firstLine @
         (if restOfInput \<noteq> [] then 0x0A # restOfInput else []))"

definition submit_direct :: "string \<times> string \<Rightarrow> resolved \<Rightarrow> prompt_state \<Rightarrow> prompt_state" where
  "submit_direct selectedModel payload st =
     (let st1 = (if no_session st then st\<lparr> calls := calls st @ [SessionCreate] \<rparr> else st);
          sessionID = (if no_session st then sdk_created_session st else current_session st);
          messageID = Identifier_ascending st1;
          st2 = st1\<lparr> next_id := Suc (next_id st1) \<rparr>;
          st3 = (if queueGate st2 = Paused then st2\<lparr> queueGate := WaitBusy \<rparr> else st2);
          currentMode = store_mode st3;
          variant = local_variant_current st3;
          st4 =
            (if store_mode st3 = Shell
             then st3\<lparr> calls := calls st3 @
                          [SessionShell sessionID (local_agent_current st3) selectedModel
                             (inputText payload)],
                       store_mode := Normal \<rparr>
             else if is_known_command st3 (inputText payload)
             then st3\<lparr> calls := calls st3 @
                          [SessionCommand sessionID
                             (drop 1 (first_word (first_line (inputText payload))))
                             (command_arguments (inputText payload))
                             (local_agent_current st3) selectedModel messageID variant
                             (filter is_file (nonTextParts payload))] \<rparr>
             else sendPrompt
                    \<lparr> si_sessionID = sessionID, si_model = selectedModel, si_variant = variant,
                      si_agent = local_agent_current st3, si_inputText = inputText payload,
                      si_parts = nonTextParts payload, si_messageID = Some messageID \<rparr> st3);
          st5 = st4\<lparr> calls := calls st4 @
                        [HistoryAppend (store_prompt_input st4) (store_prompt_parts st4) currentMode] \<rparr>;
          st6 = st5\<lparr> input_extmarks := [], store_prompt_input := [], store_prompt_parts := [],
                     store_extmarkToPartIndex := Map.empty, calls := calls st5 @ [OnSubmit] \<rparr>
      in if no_session st then st6\<lparr> calls := calls st6 @ [Navigate sessionID] \<rparr> else st6)"

text \<open>
  The branch of \<^verbatim>\<open>submit\<close> taken while a queued prompt is being edited: the entry is
  replaced in place.
\<close>

definition submit_queued_edit :: "queued_prompt \<Rightarrow> resolved \<Rightarrow> prompt_state \<Rightarrow> prompt_state" where
  "submit_queued_edit queuedEditing payload st =
     (let st1 = st\<lparr> queuedPrompts :=
                      editInPlace (qp_id queuedEditing) (inputText payload) (nonTextParts payload)
                        (queuedPrompts st) \<rparr>;
          st2 = st1\<lparr> calls := calls st1 @
                        [HistoryAppend (store_prompt_input st1) (store_prompt_parts st1)
                           (store_mode st1)] \<rparr>;
          st3 = clearPrompt (st2\<lparr> queuedCursor := None, queuedEditID := None \<rparr>)
      in st3\<lparr> calls := calls st3 @ [Toast ToastSuccess QueuedMessageUpdated 1500] \<rparr>)"

text \<open>
  \<^verbatim>\<open>
  async function submit() {
    if (props.disabled) return
    const trimmed = store.prompt.input.trim()
    if (autocomplete?.visible && !trimmed.startsWith("/usage") &&
        !trimmed.startsWith("/codexwho") && !trimmed.startsWith("/codexswap")) return
    if (!store.prompt.input) return
    if (trimmed === "exit" || trimmed === "quit" || trimmed === ":q") { exit(); return }
    if (trimmed.startsWith("/usage")) { showUsage(trimmed); clearPrompt(); return }
    if (trimmed.startsWith("/codexwho")) { showCodexWho(); clearPrompt(); return }
    if (trimmed.startsWith("/codexswap")) { showCodexSwap(trimmed); clearPrompt(); return }

    const payload = resolvePromptInput()
    const queuedEditing = editingQueuedPrompt()
    if (queuedEditing) { ... return }

    const selectedModel = local.model.current()
    if (!selectedModel) { promptModelWarning(); return }
    ...
    if (queueGate() === "paused") setQueueGate("wait_busy")
    ...
  }
  \<close>
\<close>

definition submit :: "prompt_state \<Rightarrow> prompt_state" where
  "submit st =
     (if props_disabled st then st
      else
        let trimmed = trim (store_prompt_input st) in
        if autocomplete_visible st \<and> \<not> startsWith trimmed (js ''/usage'') \<and>
           \<not> startsWith trimmed (js ''/codexwho'') \<and> \<not> startsWith trimmed (js ''/codexswap'')
        then st
        else if store_prompt_input st = [] then st
        else if trimmed = js ''exit'' \<or> trimmed = js ''quit'' \<or> trimmed = js '':q''
        then st\<lparr> calls := calls st @ [Exit] \<rparr>
        else if startsWith trimmed (js ''/usage'')
        then clearPrompt (st\<lparr> calls := calls st @ [ShowUsage trimmed] \<rparr>)
        else if startsWith trimmed (js ''/codexwho'')
        then clearPrompt (st\<lparr> calls := calls st @ [ShowCodexWho] \<rparr>)
        else if startsWith trimmed (js ''/codexswap'')
        then clearPrompt (st\<lparr> calls := calls st @ [ShowCodexSwap trimmed] \<rparr>)
        else
          let payload = resolvePromptInput st in
          case editingQueuedPrompt st of
            Some queuedEditing \<Rightarrow> submit_queued_edit queuedEditing payload st
          | None \<Rightarrow>
              (case local_model_current st of
                 None \<Rightarrow> promptModelWarning st
               | Some selectedModel \<Rightarrow> submit_direct selectedModel payload st))"

text \<open>
  \<^verbatim>\<open>
  function queueAtEndOfLoop() {
    if (props.disabled) return
    if (autocomplete?.visible) return
    if (!props.sessionID || status().type === "idle" || store.mode !== "normal") {
      void submit()
      return
    }

    const trimmed = store.prompt.input.trim()
    if (!trimmed || trimmed.startsWith("/")) {
      void submit()
      return
    }

    const selectedModel = local.model.current()
    if (!selectedModel) {
      promptModelWarning()
      return
    }

    const payload = resolvePromptInput()
    const queued = queuedPromptsForSession().length + 1
    setQueuedPrompts((list) => [...list, { id: Identifier.ascending("part"), ... }])

    setQueuedCursor(undefined)
    setQueuedEditID(undefined)
    history.append({ ...store.prompt, mode: store.mode })
    clearPrompt()
    toast.show({ variant: "info", message: `Queued for end of loop (${queued})`, duration: 2000 })
  }
  \<close>
\<close>

definition queueAtEndOfLoop :: "prompt_state \<Rightarrow> prompt_state" where
  "queueAtEndOfLoop st =
     (if props_disabled st then st
      else if autocomplete_visible st then st
      else if no_session st \<or> status st = Idle \<or> store_mode st \<noteq> Normal then submit st
      else
        let trimmed = trim (store_prompt_input st) in
        if trimmed = [] \<or> startsWith trimmed (js ''/'') then submit st
        else
          case local_model_current st of
            None \<Rightarrow> promptModelWarning st
          | Some selectedModel \<Rightarrow>
              let payload = resolvePromptInput st;
                  queued = length (queuedPromptsForSession st) + 1;
                  st1 = st\<lparr> queuedPrompts := queuedPrompts st @
                               [\<lparr> qp_id = Identifier_ascending st, qp_sessionID = current_session st,
                                  qp_inputText = inputText payload,
                                  qp_parts = nonTextParts payload,
                                  qp_agent = local_agent_current st,
                                  qp_model = selectedModel,
                                  qp_variant = local_variant_current st \<rparr>],
                            next_id := Suc (next_id st),
                            queuedCursor := None, queuedEditID := None \<rparr>;
                  st2 = st1\<lparr> calls := calls st1 @
                                [HistoryAppend (store_prompt_input st1) (store_prompt_parts st1)
                                   (store_mode st1)] \<rparr>;
                  st3 = clearPrompt st2
              in st3\<lparr> calls := calls st3 @ [Toast ToastInfo (QueuedForEndOfLoop queued) 2000] \<rparr>)"

section \<open>Dispatch gate and dispatcher\<close>

text \<open>
  The command \<^verbatim>\<open>session.interrupt\<close>: enabled while the session is not idle.
  \<^verbatim>\<open>
  onSelect: (dialog) => {
    if (autocomplete.visible) return
    if (!input.focused) return
    if (store.mode === "shell") { setStore("mode", "normal"); return }
    if (!props.sessionID) return

    setStore("interrupt", store.interrupt + 1)
    setTimeout(() => { setStore("interrupt", 0) }, 5000)

    if (store.interrupt >= 2) {
      sdk.client.session.abort({ sessionID: props.sessionID })
      setQueueGate("paused")
      setStore("interrupt", 0)
    }
    dialog.clear()
  }
  \<close>
\<close>

definition interrupt_enabled :: "prompt_state \<Rightarrow> bool" where
  "interrupt_enabled st \<longleftrightarrow> status st \<noteq> Idle"

definition interrupt_onSelect :: "prompt_state \<Rightarrow> prompt_state" where
  "interrupt_onSelect st =
     (if autocomplete_visible st then st
      else if \<not> input_focused st then st
      else if store_mode st = Shell then st\<lparr> store_mode := Normal \<rparr>
      else if no_session st then st
      else
        let st1 = st\<lparr> store_interrupt := store_interrupt st + 1,
                      pending_interrupt_timers := Suc (pending_interrupt_timers st) \<rparr>
        in if store_interrupt st1 \<ge> 2
           then st1\<lparr> calls := calls st1 @ [SessionAbort (current_session st1)],
                     queueGate := Paused, store_interrupt := 0 \<rparr>
           else st1)"

definition session_interrupt :: "prompt_state \<Rightarrow> prompt_state" where
  "session_interrupt st = (if interrupt_enabled st then interrupt_onSelect st else st)"

text \<open>The timer set by the interrupt: \<^verbatim>\<open>setStore("interrupt", 0)\<close> after five seconds.\<close>

definition interrupt_timeout :: "prompt_state \<Rightarrow> prompt_state" where
  "interrupt_timeout st =
     (if pending_interrupt_timers st = 0 then st
      else st\<lparr> store_interrupt := 0,
               pending_interrupt_timers := pending_interrupt_timers st - 1 \<rparr>)"

text \<open>
  A change of \<^verbatim>\<open>props.sessionID\<close>:
  \<^verbatim>\<open>
  createEffect(on(() => props.sessionID, () => {
    setStore("placeholder", ...)
    setQueueGate("open")
  }, { defer: true }))
  \<close>
\<close>

definition session_changed :: "string option \<Rightarrow> prompt_state \<Rightarrow> prompt_state" where
  "session_changed sessionID st =
     (if sessionID = props_sessionID st then st
      else st\<lparr> props_sessionID := sessionID, queueGate := Open \<rparr>)"

text \<open>
  \<^verbatim>\<open>
  createEffect(() => {
    const current = queuedEditID()
    if (!current) return
    if (queuedPromptsForSession().some((item) => item.id === current)) return
    setQueuedEditID(undefined)
    setQueuedCursor(undefined)
  })
  \<close>
\<close>

definition effect_editing :: "prompt_state \<Rightarrow> prompt_state" where
  "effect_editing st =
     (case queuedEditID st of
        None \<Rightarrow> st
      | Some current \<Rightarrow>
          if \<exists>item \<in> set (queuedPromptsForSession st). qp_id item = current then st
          else st\<lparr> queuedEditID := None, queuedCursor := None \<rparr>)"

text \<open>
  \<^verbatim>\<open>
  createEffect(() => {
    const gate = queueGate()
    if (gate === "open" || gate === "paused") return
    const current = status().type
    if (gate === "wait_busy") {
      if (current === "idle") return
      setQueueGate("wait_idle")
      return
    }
    if (current !== "idle") return
    setQueueGate("open")
  })
  \<close>
\<close>

definition effect_gate :: "prompt_state \<Rightarrow> prompt_state" where
  "effect_gate st =
     (let gate = queueGate st in
      if gate = Open \<or> gate = Paused then st
      else
        let current = status st in
        if gate = WaitBusy
        then (if current = Idle then st else st\<lparr> queueGate := WaitIdle \<rparr>)
        else if current \<noteq> Idle then st
        else st\<lparr> queueGate := Open \<rparr>)"

text \<open>
  \<^verbatim>\<open>
  createEffect(() => {
    if (queueGate() !== "open") return
    if (sendingQueuedPrompt()) return
    if (queuedEditID()) return
    if (status().type !== "idle") return
    const next = queuedPromptsForSession()[0]
    if (!next) return

    setSendingQueuedPrompt(true)
    setQueuedPrompts((list) => { ... remove next.id ... })
    sendPrompt({ sessionID: next.sessionID, model: next.model, variant: next.variant,
                 agent: next.agent, inputText: next.inputText, parts: next.parts })
      .catch(() => { toast.show({ variant: "error", message: "Failed to send queued prompt", duration: 3000 }) })
      .finally(() => { setSendingQueuedPrompt(false) })
  })
  \<close>
  \<open>dispatch_next\<close> is the entry that the effect sends, if it sends one; the send leaves
  one more promise pending.
\<close>

definition dispatch_next :: "prompt_state \<Rightarrow> queued_prompt option" where
  "dispatch_next st =
     (if queueGate st \<noteq> Open then None
      else if sendingQueuedPrompt st then None
      else if queuedEditID st \<noteq> None then None
      else if status st \<noteq> Idle then None
      else case queuedPromptsForSession st of
             [] \<Rightarrow> None
           | next # rest \<Rightarrow> Some next)"

definition effect_dispatch :: "prompt_state \<Rightarrow> prompt_state" where
  "effect_dispatch st =
     (case dispatch_next st of
        None \<Rightarrow> st
      | Some next \<Rightarrow>
          let st1 = st\<lparr> sendingQueuedPrompt := True,
                        queuedPrompts := removeByID (qp_id next) (queuedPrompts st) \<rparr>;
              st2 = sendPrompt
                      \<lparr> si_sessionID = qp_sessionID next, si_model = qp_model next,
                        si_variant = qp_variant next, si_agent = qp_agent next,
                        si_inputText = qp_inputText next, si_parts = qp_parts next,
                        si_messageID = None \<rparr> st1
          in st2\<lparr> pending_sends := Suc (pending_sends st2) \<rparr>)"

text \<open>
  The promise of a queued send settles: \<^verbatim>\<open>catch\<close> shows the toast when it rejects,
  \<^verbatim>\<open>finally\<close> clears the flag.
\<close>

definition send_settled :: "bool \<Rightarrow> prompt_state \<Rightarrow> prompt_state" where
  "send_settled fulfilled st =
     (if pending_sends st = 0 then st
      else
        let st1 = (if fulfilled then st
                   else st\<lparr> calls := calls st @ [Toast ToastError FailedToSendQueuedPrompt 3000] \<rparr>)
        in st1\<lparr> sendingQueuedPrompt := False, pending_sends := pending_sends st1 - 1 \<rparr>)"

text \<open>
  After a change the three effects run, in the order of their creation. One pass reaches
  a state that none of them changes any more (lemma \<open>react_stable\<close> below).
\<close>

definition react :: "prompt_state \<Rightarrow> prompt_state" where
  "react st = effect_dispatch (effect_gate (effect_editing st))"

section \<open>Events\<close>

text \<open>
  What can happen to the component: the user's keys and commands, the changes of the
  props and of the collaborators' values, the settling of a queued send, the interrupt
  timer, and a run of one of the effects.
\<close>

datatype event =
    ContentChange jsstring "extmark list"
  | SetPrompt jsstring "part list"
  | Submit
  | QueueAtEndOfLoop
  | EditQueuedUp
  | EditQueuedDown
  | Interrupt
  | InterruptTimeout
  | StatusChange string "status_type option"
  | SessionChange "string option"
  | SendSettled bool
  | SetDisabled bool
  | SetAutocompleteVisible bool
  | SetFocused bool
  | SetMode prompt_mode
  | SetModel "(string \<times> string) option"
  | SetAgent string
  | SetVariant "string option"
  | SetCommands "jsstring list"
  | SetProviderCount nat
  | SetCreatedSession string
  | EffectEditing
  | EffectGate
  | EffectDispatch

text \<open>
  The key handler of the text area ignores every key while the prompt is disabled;
  Alt+Return queues, Alt+Up and Alt+Down move through the queued prompts.
  \<open>SetPrompt\<close> is \<^verbatim>\<open>ref.set\<close>, or a history or stash entry loaded into the prompt.
\<close>

fun handle :: "event \<Rightarrow> prompt_state \<Rightarrow> prompt_state" where
  "handle (ContentChange plainText marks) st = onContentChange plainText marks st"
| "handle (SetPrompt text ps) st =
     restoreExtmarksFromParts ps (st\<lparr> store_prompt_input := text, store_prompt_parts := ps \<rparr>)"
| "handle Submit st = submit st"
| "handle QueueAtEndOfLoop st = (if props_disabled st then st else queueAtEndOfLoop st)"
| "handle EditQueuedUp st = (if props_disabled st then st else editQueued (- 1) st)"
| "handle EditQueuedDown st = (if props_disabled st then st else editQueued 1 st)"
| "handle Interrupt st = session_interrupt st"
| "handle InterruptTimeout st = interrupt_timeout st"
| "handle (StatusChange sessionID t) st =
     st\<lparr> sync_session_status := (sync_session_status st)(sessionID := t) \<rparr>"
| "handle (SessionChange sessionID) st = session_changed sessionID st"
| "handle (SendSettled fulfilled) st = send_settled fulfilled st"
| "handle (SetDisabled b) st = st\<lparr> props_disabled := b \<rparr>"
| "handle (SetAutocompleteVisible b) st = st\<lparr> autocomplete_visible := b \<rparr>"
| "handle (SetFocused b) st = st\<lparr> input_focused := b \<rparr>"
| "handle (SetMode m) st = st\<lparr> store_mode := m \<rparr>"
| "handle (SetModel m) st = st\<lparr> local_model_current := m \<rparr>"
| "handle (SetAgent a) st = st\<lparr> local_agent_current := a \<rparr>"
| "handle (SetVariant v) st = st\<lparr> local_variant_current := v \<rparr>"
| "handle (SetCommands cs) st = st\<lparr> sync_commands := cs \<rparr>"
| "handle (SetProviderCount n) st = st\<lparr> sync_provider_count := n \<rparr>"
| "handle (SetCreatedSession s) st = st\<lparr> sdk_created_session := s \<rparr>"
| "handle EffectEditing st = effect_editing st"
| "handle EffectGate st = effect_gate st"
| "handle EffectDispatch st = effect_dispatch st"

text \<open>
  The states the component can be in: from a freshly mounted component, any event, in any
  order. The effects are events of their own, so every schedule of the effects is covered.
\<close>

inductive reachable :: "prompt_state \<Rightarrow> bool" where
  reachable_initial: "reachable (initial disabled sessionID statuses model agent)"
| reachable_handle: "reachable st \<Longrightarrow> reachable (handle e st)"

text \<open>A run: each event is followed by the effects.\<close>

definition run :: "event list \<Rightarrow> prompt_state \<Rightarrow> prompt_state" where
  "run es st = fold (\<lambda>e s. react (handle e s)) es st"


section \<open>Reference definitions and example states\<close>

subsection \<open>Expansion of placeholders, read in the original text\<close>

text \<open>
  The markers for which \<^verbatim>\<open>resolvePromptInput\<close> splices: those mapped to a text part
  with a non-empty text.
\<close>

definition expanding :: "(nat \<rightharpoonup> nat) \<Rightarrow> part list \<Rightarrow> extmark list \<Rightarrow> extmark list" where
  "expanding m ps marks = filter (\<lambda>e. expansion_of m ps e \<noteq> None) marks"

text \<open>
  The markers of the text parts, whatever their text: the markers that, in the words of
  the specification, are expanded.
\<close>

definition text_markers :: "(nat \<rightharpoonup> nat) \<Rightarrow> part list \<Rightarrow> extmark list \<Rightarrow> extmark list" where
  "text_markers m ps marks =
     filter (\<lambda>e. case m (em_id e) of
                   None \<Rightarrow> False
                 | Some partIndex \<Rightarrow> partIndex < length ps \<and> is_text (ps ! partIndex)) marks"

text \<open>The full text stored in the part of a marker.\<close>

definition stored_text :: "(nat \<rightharpoonup> nat) \<Rightarrow> part list \<Rightarrow> extmark \<Rightarrow> jsstring" where
  "stored_text m ps e =
     (case m (em_id e) of
        None \<Rightarrow> []
      | Some partIndex \<Rightarrow>
          if partIndex < length ps
          then (case ps ! partIndex of
                  TextPart t r \<Rightarrow> t
                | FilePart mi f u r \<Rightarrow> []
                | AgentPart n r \<Rightarrow> [])
          else [])"

text \<open>
  Markers in ascending order that are disjoint and lie within a text of length \<open>len\<close>,
  from position \<open>pos\<close> on.
\<close>

fun separated :: "nat \<Rightarrow> extmark list \<Rightarrow> nat \<Rightarrow> bool" where
  "separated pos [] len \<longleftrightarrow> pos \<le> len"
| "separated pos (e # es) len \<longleftrightarrow>
     pos \<le> em_start e \<and> em_start e \<le> em_end e \<and> separated (em_end e) es len"

text \<open>
  The text in which the range of every marker is replaced by \<open>full\<close> of the marker, all
  offsets being offsets of the original text: the text is copied from \<open>pos\<close> up to the
  next marker, the replacement follows, and the copy resumes at the marker's end.
\<close>

fun expand_from :: "nat \<Rightarrow> (extmark \<Rightarrow> jsstring) \<Rightarrow> extmark list \<Rightarrow> jsstring \<Rightarrow> jsstring" where
  "expand_from pos full [] buf = slice_from buf pos"
| "expand_from pos full (e # es) buf =
     slice buf pos (em_start e) @ full e @ expand_from (em_end e) full es buf"

subsection \<open>Example compositions\<close>

text \<open>A pasted text of the given full text, shown as a placeholder at an offset.\<close>

definition pasted :: "jsstring \<Rightarrow> jsstring \<Rightarrow> nat \<Rightarrow> part" where
  "pasted full placeholder start =
     TextPart full (Some \<lparr> range_start = start, range_end = start + length placeholder,
                            range_value = placeholder \<rparr>)"

definition mounted :: prompt_state where
  "mounted = initial False (Some ''s'') Map.empty (Some (''p'', ''m'')) ''build''"

text \<open>A prompt with two pasted texts and an image, loaded with \<^verbatim>\<open>ref.set\<close>.\<close>

definition two_pastes :: prompt_state where
  "two_pastes =
     handle (SetPrompt (js ''a [P1] b [P2] c [F]'')
        [pasted (js ''one'') (js ''[P1]'') 2,
         FilePart (js ''image/png'') None (js ''data:'')
           (Some \<lparr> range_start = 16, range_end = 19, range_value = js ''[F]'' \<rparr>),
         pasted (js ''second'') (js ''[P2]'') 9]) mounted"

text \<open>A prompt whose only part is a text part with an empty text.\<close>

definition empty_paste :: prompt_state where
  "empty_paste = handle (SetPrompt (js ''[Pasted] x'') [pasted [] (js ''[Pasted]'') 0]) mounted"

text \<open>A prompt with a file and an agent mention, and no text part.\<close>

definition two_references :: prompt_state where
  "two_references =
     handle (SetPrompt (js ''see [F] with @build'')
        [FilePart (js ''image/png'') None (js ''data:'')
           (Some \<lparr> range_start = 4, range_end = 7, range_value = js ''[F]'' \<rparr>),
         AgentPart (js ''build'')
           (Some \<lparr> range_start = 13, range_end = 19, range_value = js ''@build'' \<rparr>)]) mounted"

subsection \<open>Conditions on a state\<close>

text \<open>
  \<^verbatim>\<open>submit\<close> gets past its early returns (disabled, autocomplete open, empty input,
  \<^verbatim>\<open>exit\<close>, and the commands it handles itself) and resolves the prompt.
\<close>

definition submit_proceeds :: "prompt_state \<Rightarrow> bool" where
  "submit_proceeds st \<longleftrightarrow>
     \<not> props_disabled st \<and>
     \<not> autocomplete_visible st \<and>
     store_prompt_input st \<noteq> [] \<and>
     trim (store_prompt_input st) \<noteq> js ''exit'' \<and>
     trim (store_prompt_input st) \<noteq> js ''quit'' \<and>
     trim (store_prompt_input st) \<noteq> js '':q'' \<and>
     \<not> startsWith (trim (store_prompt_input st)) (js ''/usage'') \<and>
     \<not> startsWith (trim (store_prompt_input st)) (js ''/codexwho'') \<and>
     \<not> startsWith (trim (store_prompt_input st)) (js ''/codexswap'')"

text \<open>
  A direct submit: \<^verbatim>\<open>submit\<close> resolves the prompt, no queued prompt is being edited and a
  model is selected, so the prompt is sent at once.
\<close>

definition submits_directly :: "prompt_state \<Rightarrow> bool" where
  "submits_directly st \<longleftrightarrow>
     submit_proceeds st \<and> editingQueuedPrompt st = None \<and> local_model_current st \<noteq> None"

text \<open>
  \<^verbatim>\<open>queueAtEndOfLoop\<close> gets past all its returns and appends to the queue.
\<close>

definition queues_at_end :: "prompt_state \<Rightarrow> bool" where
  "queues_at_end st \<longleftrightarrow>
     \<not> props_disabled st \<and> \<not> autocomplete_visible st \<and> \<not> no_session st \<and>
     status st \<noteq> Idle \<and> store_mode st = Normal \<and> trim (store_prompt_input st) \<noteq> [] \<and>
     \<not> startsWith (trim (store_prompt_input st)) (js ''/'') \<and> local_model_current st \<noteq> None"


text \<open>The flag is set exactly while one queued send is pending.\<close>

definition single_flight :: "prompt_state \<Rightarrow> bool" where
  "single_flight st \<longleftrightarrow> pending_sends st = (if sendingQueuedPrompt st then 1 else 0)"

text \<open>The ids of the queued prompts are distinct and were all drawn from the counter.\<close>

definition fresh_ids :: "prompt_state \<Rightarrow> bool" where
  "fresh_ids st \<longleftrightarrow>
     distinct (map qp_id (queuedPrompts st)) \<and>
     (\<forall>i \<in> set (map qp_id (queuedPrompts st)). i < next_id st)"

text \<open>The request that the dispatcher sends for a queued prompt.\<close>

definition sent :: "queued_prompt \<Rightarrow> call" where
  "sent n = SessionPrompt \<lparr> si_sessionID = qp_sessionID n, si_model = qp_model n,
              si_variant = qp_variant n, si_agent = qp_agent n,
              si_inputText = qp_inputText n, si_parts = qp_parts n, si_messageID = None \<rparr>"

subsection \<open>Example sessions\<close>

text \<open>
  The session \<^verbatim>\<open>s\<close> is running; the user types a message and queues it with
  Alt+Return, three times.
\<close>

definition busy_session :: prompt_state where
  "busy_session = run [StatusChange ''s'' (Some Busy)] mounted"

definition queue_message :: "jsstring \<Rightarrow> prompt_state \<Rightarrow> prompt_state" where
  "queue_message t st = run [ContentChange t [], QueueAtEndOfLoop] st"

definition one_queued :: prompt_state where
  "one_queued = queue_message (js ''message 1'') busy_session"

definition two_queued :: prompt_state where
  "two_queued = queue_message (js ''message 2'') one_queued"

definition three_queued :: prompt_state where
  "three_queued = queue_message (js ''message 3'') two_queued"

text \<open>The queued prompt that these sessions hold for a text.\<close>

definition queued_message :: "nat \<Rightarrow> jsstring \<Rightarrow> queued_prompt" where
  "queued_message i t =
     \<lparr> qp_id = i, qp_sessionID = ''s'', qp_inputText = t, qp_parts = [], qp_agent = ''build'',
       qp_model = (''p'', ''m''), qp_variant = None \<rparr>"

text \<open>
  The session with three queued prompts in which the navigator has selected the entry at
  cursor \<open>k\<close>, of id \<open>i\<close> and text \<open>t\<close>.
\<close>

definition selected :: "nat \<Rightarrow> nat \<Rightarrow> jsstring \<Rightarrow> prompt_state" where
  "selected k i t =
     three_queued\<lparr> queuedCursor := Some k, queuedEditID := Some i, store_prompt_input := t,
        store_prompt_parts := [], input_extmarks := [], store_extmarkToPartIndex := Map.empty \<rparr>"

text \<open>
  With two prompts queued the turn ends, and while the first queued send is pending the
  status changes twice and the dispatcher's effect runs once more.
\<close>

definition first_in_flight :: prompt_state where
  "first_in_flight =
     run [StatusChange ''s'' None, StatusChange ''s'' (Some Busy), StatusChange ''s'' None,
          EffectDispatch] two_queued"

text \<open>With two prompts queued, the turn ends; the effects have not run yet.\<close>

definition turn_ended :: prompt_state where
  "turn_ended = handle (StatusChange ''s'' None) two_queued"




text \<open>
  An idle session in which the user has typed \<^verbatim>\<open>hello\<close>, and one in which the user has
  typed \<^verbatim>\<open>/usage\<close> and the autocomplete is open.
\<close>

definition typing_hello :: prompt_state where
  "typing_hello = handle (ContentChange (js ''hello'') []) mounted"

definition typing_usage :: prompt_state where
  "typing_usage =
     handle (SetAutocompleteVisible True) (handle (ContentChange (js ''/usage'') []) mounted)"

text \<open>
  The states of a run, the first one included, and the events of the gate's lifecycle:
  two interrupts, the end of the interrupted turn, a direct submit, the start and the end
  of the next turn.
\<close>

fun trace :: "event list \<Rightarrow> prompt_state \<Rightarrow> prompt_state list" where
  "trace [] st = [st]"
| "trace (e # es) st = st # trace es (react (handle e st))"

definition lifecycle :: "event list" where
  "lifecycle =
     [Interrupt, Interrupt, StatusChange ''s'' None, ContentChange (js ''go on'') [], Submit,
      StatusChange ''s'' (Some Busy), StatusChange ''s'' None]"

text \<open>The direct send of that run.\<close>

definition go_on :: call where
  "go_on = SessionPrompt \<lparr> si_sessionID = ''s'', si_model = (''p'', ''m''), si_variant = None,
     si_agent = ''build'', si_inputText = js ''go on'', si_parts = [], si_messageID = Some 1 \<rparr>"

section \<open>General lemmas\<close>

declare Identifier_ascending_def [simp]

subsection \<open>What each operation does and what it leaves alone\<close>

lemma mounted_fields [simp]:
  "props_disabled mounted = False"
  "props_sessionID mounted = Some ''s''"
  "sync_session_status mounted = Map.empty"
  "sync_provider_count mounted = 1"
  "sync_commands mounted = []"
  "sdk_created_session mounted = ''new''"
  "autocomplete_visible mounted = False"
  "input_focused mounted = True"
  "local_model_current mounted = Some (''p'', ''m'')"
  "local_agent_current mounted = ''build''"
  "local_variant_current mounted = None"
  "input_extmarks mounted = []"
  "next_extmark_id mounted = 1"
  "store_prompt_input mounted = []"
  "store_prompt_parts mounted = []"
  "store_mode mounted = Normal"
  "store_extmarkToPartIndex mounted = Map.empty"
  "store_interrupt mounted = 0"
  "queuedPrompts mounted = []"
  "sendingQueuedPrompt mounted = False"
  "queuedEditID mounted = None"
  "queuedCursor mounted = None"
  "queueGate mounted = Open"
  "next_id mounted = 0"
  "pending_sends mounted = 0"
  "pending_interrupt_timers mounted = 0"
  "calls mounted = []"
  by (simp_all add: mounted_def initial_def)

lemma onContentChange_plain:
  "onContentChange t [] st =
     st\<lparr> input_extmarks := [], store_prompt_input := t, store_prompt_parts := [],
         store_extmarkToPartIndex := Map.empty \<rparr>"
  by (simp add: onContentChange_def syncExtmarksWithPromptParts_def)

lemma resolvePromptInput_plain:
  "input_extmarks st = [] \<Longrightarrow> store_prompt_parts st = [] \<Longrightarrow>
   resolvePromptInput st = \<lparr> inputText = store_prompt_input st, nonTextParts = [] \<rparr>"
  by (simp add: resolvePromptInput_def sortedExtmarks_def)

lemma queueAtEndOfLoop_appends:
  assumes "\<not> props_disabled st" "\<not> autocomplete_visible st" "\<not> no_session st"
    "status st \<noteq> Idle" "store_mode st = Normal"
    "trim (store_prompt_input st) \<noteq> []" "\<not> startsWith (trim (store_prompt_input st)) (js ''/'')"
    "local_model_current st = Some selectedModel"
  shows "queueAtEndOfLoop st =
     st\<lparr> queuedPrompts := queuedPrompts st @
            [\<lparr> qp_id = next_id st, qp_sessionID = current_session st,
               qp_inputText = inputText (resolvePromptInput st),
               qp_parts = nonTextParts (resolvePromptInput st),
               qp_agent = local_agent_current st, qp_model = selectedModel,
               qp_variant = local_variant_current st \<rparr>],
         next_id := Suc (next_id st), queuedCursor := None, queuedEditID := None,
         input_extmarks := [], store_prompt_input := [], store_prompt_parts := [],
         store_extmarkToPartIndex := Map.empty,
         calls := calls st @
            [HistoryAppend (store_prompt_input st) (store_prompt_parts st) (store_mode st),
             OnSubmit,
             Toast ToastInfo (QueuedForEndOfLoop (length (queuedPromptsForSession st) + 1)) 2000] \<rparr>"
  using assms by (simp add: queueAtEndOfLoop_def clearPrompt_def Let_def)

lemma effect_editing_idle: "queuedEditID st = None \<Longrightarrow> effect_editing st = st"
  by (simp add: effect_editing_def)

lemma effect_editing_present:
  "queuedEditID st = Some i \<Longrightarrow> i \<in> qp_id ` set (queuedPromptsForSession st) \<Longrightarrow>
   effect_editing st = st"
  by (auto simp: effect_editing_def)

lemma effect_editing_absent:
  "queuedEditID st = Some i \<Longrightarrow> i \<notin> qp_id ` set (queuedPromptsForSession st) \<Longrightarrow>
   effect_editing st = st\<lparr> queuedEditID := None, queuedCursor := None \<rparr>"
  by (auto simp: effect_editing_def)

lemma effect_gate_cases:
  "effect_gate st =
     (case queueGate st of
        Open \<Rightarrow> st
      | Paused \<Rightarrow> st
      | WaitBusy \<Rightarrow> if status st = Idle then st else st\<lparr> queueGate := WaitIdle \<rparr>
      | WaitIdle \<Rightarrow> if status st = Idle then st\<lparr> queueGate := Open \<rparr> else st)"
  by (simp add: effect_gate_def Let_def split: gate.splits)

lemma effect_dispatch_blocked:
  "dispatch_next st = None \<Longrightarrow> effect_dispatch st = st"
  by (simp add: effect_dispatch_def)

lemma dispatch_next_blocked:
  "queueGate st \<noteq> Open \<or> sendingQueuedPrompt st \<or> queuedEditID st \<noteq> None \<or> status st \<noteq> Idle
     \<or> queuedPromptsForSession st = [] \<Longrightarrow> dispatch_next st = None"
  by (auto simp: dispatch_next_def)


lemma effect_dispatch_sends:
  "dispatch_next st = Some n \<Longrightarrow>
   effect_dispatch st =
     st\<lparr> sendingQueuedPrompt := True,
         queuedPrompts := removeByID (qp_id n) (queuedPrompts st),
         calls := calls st @
           [SessionPrompt \<lparr> si_sessionID = qp_sessionID n, si_model = qp_model n,
              si_variant = qp_variant n, si_agent = qp_agent n,
              si_inputText = qp_inputText n, si_parts = qp_parts n, si_messageID = None \<rparr>],
         pending_sends := Suc (pending_sends st) \<rparr>"
  by (simp add: effect_dispatch_def sendPrompt_def Let_def)

lemma react_quiet:
  "queuedEditID st = None \<Longrightarrow> queueGate st = Open \<or> queueGate st = Paused \<Longrightarrow>
   dispatch_next st = None \<Longrightarrow> react st = st"
  by (auto simp: react_def effect_editing_idle effect_gate_cases effect_dispatch_blocked)


lemma run_Nil: "run [] st = st"
  by (simp add: run_def)

lemma run_Cons: "run (e # es) st = run es (react (handle e st))"
  by (simp add: run_def)

lemma restore_parts_frame:
  "\<exists>x y z. restore_parts ps i st =
     st\<lparr> input_extmarks := x, next_extmark_id := y, store_extmarkToPartIndex := z \<rparr>"
proof (induction ps arbitrary: i st)
  case Nil
  have "st = st\<lparr> input_extmarks := input_extmarks st, next_extmark_id := next_extmark_id st,
      store_extmarkToPartIndex := store_extmarkToPartIndex st \<rparr>"
    by simp
  then show ?case
    by (metis restore_parts.simps(1))
next
  case (Cons p ps)
  show ?case
  proof (cases "part_source p")
    case None
    then show ?thesis using Cons.IH [of "Suc i" st] by simp
  next
    case (Some r)
    show ?thesis
    proof (cases "range_value r = []")
      case True
      with Some show ?thesis using Cons.IH [of "Suc i" st] by simp
    next
      case False
      let ?st = "st\<lparr> input_extmarks := input_extmarks st @
                       [\<lparr> em_id = next_extmark_id st, em_start = range_start r,
                          em_end = range_end r \<rparr>],
                     next_extmark_id := Suc (next_extmark_id st),
                     store_extmarkToPartIndex :=
                       (store_extmarkToPartIndex st)(next_extmark_id st \<mapsto> i) \<rparr>"
      from Cons.IH [of "Suc i" ?st] obtain x y z where
        "restore_parts ps (Suc i) ?st =
           ?st\<lparr> input_extmarks := x, next_extmark_id := y, store_extmarkToPartIndex := z \<rparr>"
        by blast
      with Some False show ?thesis
        by auto
    qed
  qed
qed

lemma restoreExtmarksFromParts_frame:
  "\<exists>x y z. restoreExtmarksFromParts ps st =
     st\<lparr> input_extmarks := x, next_extmark_id := y, store_extmarkToPartIndex := z \<rparr>"
proof -
  from restore_parts_frame [of ps 0 "st\<lparr> input_extmarks := [], store_extmarkToPartIndex := Map.empty \<rparr>"]
  obtain x y z where "restoreExtmarksFromParts ps st =
     st\<lparr> input_extmarks := [], store_extmarkToPartIndex := Map.empty \<rparr>
       \<lparr> input_extmarks := x, next_extmark_id := y, store_extmarkToPartIndex := z \<rparr>"
    unfolding restoreExtmarksFromParts_def by blast
  then show ?thesis by auto
qed

lemma restore_keeps [simp]:
  "sendingQueuedPrompt (restoreExtmarksFromParts ps st) = sendingQueuedPrompt st"
  "pending_sends (restoreExtmarksFromParts ps st) = pending_sends st"
  "queueGate (restoreExtmarksFromParts ps st) = queueGate st"
  "queuedPrompts (restoreExtmarksFromParts ps st) = queuedPrompts st"
  "queuedEditID (restoreExtmarksFromParts ps st) = queuedEditID st"
  "queuedCursor (restoreExtmarksFromParts ps st) = queuedCursor st"
  "store_prompt_input (restoreExtmarksFromParts ps st) = store_prompt_input st"
  "store_prompt_parts (restoreExtmarksFromParts ps st) = store_prompt_parts st"
  "calls (restoreExtmarksFromParts ps st) = calls st"
proof -
  from restoreExtmarksFromParts_frame [of ps st] obtain x y z where
    "restoreExtmarksFromParts ps st =
       st\<lparr> input_extmarks := x, next_extmark_id := y, store_extmarkToPartIndex := z \<rparr>"
    by blast
  then show
    "sendingQueuedPrompt (restoreExtmarksFromParts ps st) = sendingQueuedPrompt st"
    "pending_sends (restoreExtmarksFromParts ps st) = pending_sends st"
    "queueGate (restoreExtmarksFromParts ps st) = queueGate st"
    "queuedPrompts (restoreExtmarksFromParts ps st) = queuedPrompts st"
    "queuedEditID (restoreExtmarksFromParts ps st) = queuedEditID st"
    "queuedCursor (restoreExtmarksFromParts ps st) = queuedCursor st"
    "store_prompt_input (restoreExtmarksFromParts ps st) = store_prompt_input st"
    "store_prompt_parts (restoreExtmarksFromParts ps st) = store_prompt_parts st"
    "calls (restoreExtmarksFromParts ps st) = calls st"
    by simp_all
qed

lemma restoreExtmarksFromParts_Nil:
  "restoreExtmarksFromParts [] st =
     st\<lparr> input_extmarks := [], store_extmarkToPartIndex := Map.empty \<rparr>"
  by (simp add: restoreExtmarksFromParts_def)

lemma submit_keeps [simp]:
  "sendingQueuedPrompt (submit st) = sendingQueuedPrompt st"
  "pending_sends (submit st) = pending_sends st"
  by (simp_all add: submit_def submit_direct_def submit_queued_edit_def
      clearPrompt_def promptModelWarning_def sendPrompt_def Let_def split: option.splits)

lemma queueAtEndOfLoop_keeps [simp]:
  "sendingQueuedPrompt (queueAtEndOfLoop st) = sendingQueuedPrompt st"
  "pending_sends (queueAtEndOfLoop st) = pending_sends st"
  by (simp_all add: queueAtEndOfLoop_def clearPrompt_def promptModelWarning_def
      Let_def split: option.splits)

lemma editQueued_keeps [simp]:
  "sendingQueuedPrompt (editQueued d st) = sendingQueuedPrompt st"
  "pending_sends (editQueued d st) = pending_sends st"
  "queueGate (editQueued d st) = queueGate st"
  "queuedPrompts (editQueued d st) = queuedPrompts st"
  by (simp_all add: editQueued_def Let_def)

lemma onContentChange_keeps [simp]:
  "sendingQueuedPrompt (onContentChange t marks st) = sendingQueuedPrompt st"
  "pending_sends (onContentChange t marks st) = pending_sends st"
  "queueGate (onContentChange t marks st) = queueGate st"
  "queuedPrompts (onContentChange t marks st) = queuedPrompts st"
  by (simp_all add: onContentChange_def syncExtmarksWithPromptParts_def split: prod.splits)


lemma submit_direct_result:
  "submits_directly st \<Longrightarrow> local_model_current st = Some selectedModel \<Longrightarrow>
   submit st = submit_direct selectedModel (resolvePromptInput st) st"
  by (simp add: submits_directly_def submit_proceeds_def submit_def Let_def)

lemma submit_direct_gate:
  "queueGate (submit_direct selectedModel payload st) =
     (if queueGate st = Paused then WaitBusy else queueGate st)"
  by (simp add: submit_direct_def sendPrompt_def Let_def)

lemma submit_direct_queue:
  "queuedPrompts (submit_direct selectedModel payload st) = queuedPrompts st"
  by (simp add: submit_direct_def sendPrompt_def Let_def)

lemma submit_cases:
  "(\<not> submit_proceeds st \<and>
      (submit st = st \<or> submit st = st\<lparr> calls := calls st @ [Exit] \<rparr> \<or>
       (\<exists>c. submit st = clearPrompt (st\<lparr> calls := calls st @ [c] \<rparr>)))) \<or>
   (\<exists>q. submit_proceeds st \<and> editingQueuedPrompt st = Some q \<and>
        submit st = submit_queued_edit q (resolvePromptInput st) st) \<or>
   (submit_proceeds st \<and> editingQueuedPrompt st = None \<and> local_model_current st = None \<and>
        submit st = promptModelWarning st) \<or>
   (\<exists>m. submits_directly st \<and> local_model_current st = Some m \<and>
        submit st = submit_direct m (resolvePromptInput st) st)"
proof (cases "submit_proceeds st")
  case True
  show ?thesis
  proof (cases "editingQueuedPrompt st")
    case None
    with True show ?thesis
      by (cases "local_model_current st")
        (simp_all add: submits_directly_def submit_proceeds_def submit_def Let_def)
  next
    case (Some q)
    with True show ?thesis
      by (simp add: submit_proceeds_def submit_def Let_def)
  qed
next
  case False
  let ?t = "trim (store_prompt_input st)"
  let ?u = "startsWith ?t (js ''/usage'')"
  let ?w = "startsWith ?t (js ''/codexwho'')"
  let ?s = "startsWith ?t (js ''/codexswap'')"
  let ?x = "?t = js ''exit'' \<or> ?t = js ''quit'' \<or> ?t = js '':q''"
  consider (disabled) "props_disabled st"
    | (popup) "\<not> props_disabled st" "autocomplete_visible st \<and> \<not> ?u \<and> \<not> ?w \<and> \<not> ?s"
    | (empty) "\<not> props_disabled st" "\<not> (autocomplete_visible st \<and> \<not> ?u \<and> \<not> ?w \<and> \<not> ?s)"
        "store_prompt_input st = []"
    | (exit) "\<not> props_disabled st" "\<not> (autocomplete_visible st \<and> \<not> ?u \<and> \<not> ?w \<and> \<not> ?s)"
        "store_prompt_input st \<noteq> []" "?x"
    | (usage) "\<not> props_disabled st" "\<not> (autocomplete_visible st \<and> \<not> ?u \<and> \<not> ?w \<and> \<not> ?s)"
        "store_prompt_input st \<noteq> []" "\<not> ?x" "?u"
    | (who) "\<not> props_disabled st" "\<not> (autocomplete_visible st \<and> \<not> ?u \<and> \<not> ?w \<and> \<not> ?s)"
        "store_prompt_input st \<noteq> []" "\<not> ?x" "\<not> ?u" "?w"
    | (swap) "\<not> props_disabled st" "\<not> (autocomplete_visible st \<and> \<not> ?u \<and> \<not> ?w \<and> \<not> ?s)"
        "store_prompt_input st \<noteq> []" "\<not> ?x" "\<not> ?u" "\<not> ?w" "?s"
    using False unfolding submit_proceeds_def by blast
  then show ?thesis
  proof cases
    case disabled
    then have "submit st = st" by (simp add: submit_def)
    with False show ?thesis by blast
  next
    case popup
    then have "submit st = st" by (simp add: submit_def Let_def)
    with False show ?thesis by blast
  next
    case empty
    then have "submit st = st" by (simp add: submit_def Let_def)
    with False show ?thesis by blast
  next
    case exit
    then have "submit st = st\<lparr> calls := calls st @ [Exit] \<rparr>"
      unfolding submit_def Let_def by (simp only: if_True if_False)
    with False show ?thesis by blast
  next
    case usage
    then have "submit st = clearPrompt (st\<lparr> calls := calls st @ [ShowUsage ?t] \<rparr>)"
      unfolding submit_def Let_def by (simp only: if_True if_False)
    with False show ?thesis by blast
  next
    case who
    then have "submit st = clearPrompt (st\<lparr> calls := calls st @ [ShowCodexWho] \<rparr>)"
      unfolding submit_def Let_def by (simp only: if_True if_False)
    with False show ?thesis by blast
  next
    case swap
    then have "submit st = clearPrompt (st\<lparr> calls := calls st @ [ShowCodexSwap ?t] \<rparr>)"
      unfolding submit_def Let_def by (simp only: if_True if_False)
    with False show ?thesis by blast
  qed
qed

lemma submit_gate:
  "queueGate (submit st) =
     (if submits_directly st \<and> queueGate st = Paused then WaitBusy else queueGate st)"
  using submit_cases [of st]
  by (auto simp: submit_direct_gate submit_queued_edit_def clearPrompt_def promptModelWarning_def
      submits_directly_def Let_def)

lemma submit_queue_ids:
  "map qp_id (queuedPrompts (submit st)) = map qp_id (queuedPrompts st) \<and>
   map qp_sessionID (queuedPrompts (submit st)) = map qp_sessionID (queuedPrompts st)"
  using submit_cases [of st]
  by (auto simp: submit_direct_queue submit_queued_edit_def clearPrompt_def promptModelWarning_def
      editInPlace_def Let_def comp_def)


subsection \<open>Reachable states and runs\<close>

lemma reachable_react: "reachable st \<Longrightarrow> reachable (react st)"
proof -
  assume "reachable st"
  then have "reachable (handle EffectDispatch (handle EffectGate (handle EffectEditing st)))"
    by (intro reachable_handle)
  then show ?thesis by (simp add: react_def)
qed

lemma reachable_run: "reachable st \<Longrightarrow> reachable (run es st)"
  by (induction es arbitrary: st) (simp_all add: run_Cons run_Nil reachable_react reachable_handle)

lemma reachable_mounted: "reachable mounted"
  unfolding mounted_def by (rule reachable_initial)

lemma reachable_examples:
  "reachable busy_session" "reachable one_queued" "reachable two_queued"
  "reachable three_queued" "reachable first_in_flight"
  unfolding busy_session_def queue_message_def one_queued_def two_queued_def three_queued_def
    first_in_flight_def
  by (intro reachable_run reachable_mounted)+

lemma react_dispatches:
  "queuedEditID st = None \<Longrightarrow> queueGate st = Open \<Longrightarrow> dispatch_next st = Some n \<Longrightarrow>
   react st =
     st\<lparr> sendingQueuedPrompt := True,
         queuedPrompts := removeByID (qp_id n) (queuedPrompts st),
         calls := calls st @ [sent n],
         pending_sends := Suc (pending_sends st) \<rparr>"
  by (simp add: react_def effect_editing_idle effect_gate_cases effect_dispatch_sends sent_def)


subsection \<open>The example sessions, computed\<close>

lemma queue_message_appends:
  assumes "\<not> props_disabled st" "\<not> autocomplete_visible st" "\<not> no_session st"
    "status st \<noteq> Idle" "store_mode st = Normal"
    "trim t \<noteq> []" "\<not> startsWith (trim t) (js ''/'')"
    "local_model_current st = Some selectedModel"
    "queuedEditID st = None" "queueGate st = Open \<or> queueGate st = Paused"
  shows "queue_message t st =
     st\<lparr> input_extmarks := [], store_prompt_input := [], store_prompt_parts := [],
         store_extmarkToPartIndex := Map.empty,
         queuedPrompts := queuedPrompts st @
            [\<lparr> qp_id = next_id st, qp_sessionID = current_session st,
               qp_inputText = t, qp_parts = [],
               qp_agent = local_agent_current st, qp_model = selectedModel,
               qp_variant = local_variant_current st \<rparr>],
         next_id := Suc (next_id st), queuedCursor := None, queuedEditID := None,
         calls := calls st @
            [HistoryAppend t [] Normal, OnSubmit,
             Toast ToastInfo (QueuedForEndOfLoop (length (queuedPromptsForSession st) + 1)) 2000] \<rparr>"
proof -
  let ?typed = "st\<lparr> input_extmarks := [], store_prompt_input := t, store_prompt_parts := [],
         store_extmarkToPartIndex := Map.empty \<rparr>"
  have status: "status ?typed = status st" and session: "no_session ?typed = no_session st"
    and cur: "current_session ?typed = current_session st"
    and qs: "queuedPromptsForSession ?typed = queuedPromptsForSession st"
    by (simp_all add: status_def current_session_def no_session_def queuedPromptsForSession_def)
  have typed: "react (handle (ContentChange t []) st) = ?typed"
    using assms
    by (simp add: onContentChange_plain react_quiet dispatch_next_blocked status)
  have queued: "queueAtEndOfLoop ?typed =
     ?typed\<lparr> queuedPrompts := queuedPrompts ?typed @
            [\<lparr> qp_id = next_id ?typed, qp_sessionID = current_session ?typed,
               qp_inputText = inputText (resolvePromptInput ?typed),
               qp_parts = nonTextParts (resolvePromptInput ?typed),
               qp_agent = local_agent_current ?typed, qp_model = selectedModel,
               qp_variant = local_variant_current ?typed \<rparr>],
         next_id := Suc (next_id ?typed), queuedCursor := None, queuedEditID := None,
         input_extmarks := [], store_prompt_input := [], store_prompt_parts := [],
         store_extmarkToPartIndex := Map.empty,
         calls := calls ?typed @
            [HistoryAppend (store_prompt_input ?typed) (store_prompt_parts ?typed) (store_mode ?typed),
             OnSubmit,
             Toast ToastInfo (QueuedForEndOfLoop (length (queuedPromptsForSession ?typed) + 1)) 2000] \<rparr>"
    using assms by (intro queueAtEndOfLoop_appends) (simp_all add: status session)
  let ?queued = "queueAtEndOfLoop ?typed"
  have "status ?queued \<noteq> Idle"
    unfolding queued using assms(4) by (simp add: status_def current_session_def)
  then have quiet: "react ?queued = ?queued"
    unfolding queued using assms
    by (intro react_quiet dispatch_next_blocked) auto
  have "queue_message t st = react (handle QueueAtEndOfLoop ?typed)"
    by (simp only: queue_message_def run_Cons run_Nil typed)
  also have "\<dots> = ?queued"
  proof -
    have "\<not> props_disabled ?typed" using assms(1) by simp
    then have "handle QueueAtEndOfLoop ?typed = ?queued" by simp
    with quiet show ?thesis by simp
  qed
  finally show ?thesis
    unfolding queued using assms(5)
    by (simp add: resolvePromptInput_plain cur qs)
qed

lemma busy_session_eq:
  "busy_session = mounted\<lparr> sync_session_status := [''s'' \<mapsto> Busy] \<rparr>"
  by (simp add: busy_session_def run_Cons run_Nil react_quiet dispatch_next_blocked status_def
      current_session_def)

lemma message_texts:
  "trim (js ''message 1'') = js ''message 1''"
  "trim (js ''message 2'') = js ''message 2''"
  "trim (js ''message 3'') = js ''message 3''"
  "trim (js ''message 2xyz'') = js ''message 2xyz''"
  "js ''message 1'' \<noteq> []" "js ''message 2'' \<noteq> []" "js ''message 3'' \<noteq> []"
  "js ''message 2xyz'' \<noteq> []"
  "\<not> startsWith (js ''message 1'') (js ''/'')"
  "\<not> startsWith (js ''message 2'') (js ''/'')"
  "\<not> startsWith (js ''message 3'') (js ''/'')"
  "\<not> startsWith (js ''message 2xyz'') (js ''/'')"
  by (simp_all add: trim_def js_def is_space_def startsWith_def)

lemmas session_defs = no_session_def status_def current_session_def queuedPromptsForSession_def

lemma one_queued_eq:
  "one_queued =
     mounted\<lparr> sync_session_status := [''s'' \<mapsto> Busy],
       queuedPrompts := [queued_message 0 (js ''message 1'')],
       next_id := 1,
       calls := [HistoryAppend (js ''message 1'') [] Normal, OnSubmit,
                 Toast ToastInfo (QueuedForEndOfLoop 1) 2000] \<rparr>"
  unfolding one_queued_def
  by (subst queue_message_appends [where selectedModel = "(''p'', ''m'')"])
    (simp_all add: busy_session_eq message_texts session_defs queued_message_def
      mounted_def initial_def)

lemma two_queued_eq:
  "two_queued =
     mounted\<lparr> sync_session_status := [''s'' \<mapsto> Busy],
       queuedPrompts := [queued_message 0 (js ''message 1''), queued_message 1 (js ''message 2'')],
       next_id := 2,
       calls := [HistoryAppend (js ''message 1'') [] Normal, OnSubmit,
                 Toast ToastInfo (QueuedForEndOfLoop 1) 2000,
                 HistoryAppend (js ''message 2'') [] Normal, OnSubmit,
                 Toast ToastInfo (QueuedForEndOfLoop 2) 2000] \<rparr>"
  unfolding two_queued_def one_queued_eq
  by (subst queue_message_appends [where selectedModel = "(''p'', ''m'')"])
    (simp_all add: message_texts session_defs queued_message_def mounted_def initial_def)

lemma three_queued_eq:
  "three_queued =
     mounted\<lparr> sync_session_status := [''s'' \<mapsto> Busy],
       queuedPrompts := [queued_message 0 (js ''message 1''), queued_message 1 (js ''message 2''),
                         queued_message 2 (js ''message 3'')],
       next_id := 3,
       calls := [HistoryAppend (js ''message 1'') [] Normal, OnSubmit,
                 Toast ToastInfo (QueuedForEndOfLoop 1) 2000,
                 HistoryAppend (js ''message 2'') [] Normal, OnSubmit,
                 Toast ToastInfo (QueuedForEndOfLoop 2) 2000,
                 HistoryAppend (js ''message 3'') [] Normal, OnSubmit,
                 Toast ToastInfo (QueuedForEndOfLoop 3) 2000] \<rparr>"
  unfolding three_queued_def two_queued_eq
  by (subst queue_message_appends [where selectedModel = "(''p'', ''m'')"])
    (simp_all add: message_texts session_defs queued_message_def mounted_def initial_def)


subsection \<open>The queue\<close>

lemma removeByID_absent: "i \<notin> qp_id ` set list \<Longrightarrow> removeByID i list = list"
  by (induction list) auto

lemma removeByID_removes:
  "distinct (map qp_id list) \<Longrightarrow> i \<notin> qp_id ` set (removeByID i list)"
  by (induction list) auto

lemma set_removeByID: "set (removeByID i list) \<subseteq> set list"
  by (induction list) auto

lemma distinct_removeByID:
  "distinct (map qp_id list) \<Longrightarrow> distinct (map qp_id (removeByID i list))"
proof (induction list)
  case Nil
  show ?case by simp
next
  case (Cons item list)
  have "qp_id item \<notin> qp_id ` set (removeByID i list)"
    using Cons.prems set_removeByID [of i list] by auto
  with Cons show ?case by simp
qed

lemma filter_removeByID_head:
  "distinct (map qp_id list) \<Longrightarrow> filter P list = n # rest \<Longrightarrow>
   filter P (removeByID (qp_id n) list) = rest"
proof (induction list)
  case Nil
  then show ?case by simp
next
  case (Cons item list)
  show ?case
  proof (cases "P item")
    case True
    with Cons.prems show ?thesis by simp
  next
    case False
    with Cons.prems have rest: "filter P list = n # rest" by simp
    then have "n \<in> set (filter P list)" by simp
    then have "n \<in> set list" by simp
    with Cons.prems(1) have "qp_id item \<noteq> qp_id n" by auto
    with False Cons rest show ?thesis by simp
  qed
qed


lemma editInPlace_ids [simp]:
  "map qp_id (editInPlace i t ps list) = map qp_id list"
  "map qp_sessionID (editInPlace i t ps list) = map qp_sessionID list"
  "length (editInPlace i t ps list) = length list"
  by (simp_all add: editInPlace_def comp_def)

lemma session_queue_after_dispatch:
  assumes "dispatch_next st = Some n" "distinct (map qp_id (queuedPrompts st))"
  shows "queuedPromptsForSession st = n # queuedPromptsForSession (effect_dispatch st)"
proof -
  from assms(1) obtain rest where rest: "queuedPromptsForSession st = n # rest"
    by (auto simp: dispatch_next_def split: if_splits list.splits)
  then have session: "\<not> no_session st"
    by (auto simp: queuedPromptsForSession_def split: if_splits)
  with rest have "filter (\<lambda>item. Some (qp_sessionID item) = props_sessionID st) (queuedPrompts st) = n # rest"
    by (simp add: queuedPromptsForSession_def)
  from filter_removeByID_head [OF assms(2) this] session assms(1)
  have "queuedPromptsForSession (effect_dispatch st) = rest"
    by (simp add: effect_dispatch_sends queuedPromptsForSession_def no_session_def)
  with rest show ?thesis by simp
qed

lemma send_settled_pending:
  "0 < pending_sends st \<Longrightarrow>
   send_settled fulfilled st =
     st\<lparr> calls := calls st @
           (if fulfilled then [] else [Toast ToastError FailedToSendQueuedPrompt 3000]),
         sendingQueuedPrompt := False, pending_sends := pending_sends st - 1 \<rparr>"
  by (simp add: send_settled_def)




subsection \<open>The effects reach a stable state in one pass\<close>

lemma effects_keep_editing [simp]:
  "queuedEditID (effect_gate st) = queuedEditID st"
  "queuedEditID (effect_dispatch st) = queuedEditID st"
  "queuedCursor (effect_gate st) = queuedCursor st"
  "queuedCursor (effect_dispatch st) = queuedCursor st"
  by (simp_all add: effect_gate_cases effect_dispatch_def sendPrompt_def Let_def
      split: gate.splits option.splits)

lemma status_frame [simp]:
  "status (st\<lparr> queueGate := g \<rparr>) = status st"
  "status (st\<lparr> queuedEditID := i, queuedCursor := c \<rparr>) = status st"
  "queuedPromptsForSession (st\<lparr> queueGate := g \<rparr>) = queuedPromptsForSession st"
  "queuedPromptsForSession (st\<lparr> queuedEditID := i, queuedCursor := c \<rparr>) = queuedPromptsForSession st"
  by (simp_all add: session_defs)

lemma effect_editing_idem: "effect_editing (effect_editing st) = effect_editing st"
proof (cases "queuedEditID st")
  case None
  then show ?thesis by (simp add: effect_editing_idle)
next
  case (Some i)
  show ?thesis
  proof (cases "i \<in> qp_id ` set (queuedPromptsForSession st)")
    case True
    with Some show ?thesis by (simp add: effect_editing_present)
  next
    case False
    with Some show ?thesis by (simp add: effect_editing_absent effect_editing_idle)
  qed
qed

lemma effect_gate_idem: "effect_gate (effect_gate st) = effect_gate st"
  by (cases "queueGate st"; cases "status st = Idle") (simp_all add: effect_gate_cases)

lemma effect_gate_editing:
  "effect_editing st = st \<Longrightarrow> effect_editing (effect_gate st) = effect_gate st"
proof (cases "queuedEditID st")
  case None
  then have "queuedEditID (effect_gate st) = None" by simp
  then show ?thesis by (rule effect_editing_idle)
next
  case (Some i)
  assume fixed: "effect_editing st = st"
  have present: "i \<in> qp_id ` set (queuedPromptsForSession st)"
  proof (rule ccontr)
    assume "i \<notin> qp_id ` set (queuedPromptsForSession st)"
    with Some have "effect_editing st = st\<lparr> queuedEditID := None, queuedCursor := None \<rparr>"
      by (rule effect_editing_absent)
    with fixed have "queuedEditID st = queuedEditID (st\<lparr> queuedEditID := None, queuedCursor := None \<rparr>)"
      by simp
    with Some show False by simp
  qed
  have "queuedPromptsForSession (effect_gate st) = queuedPromptsForSession st"
    by (cases "queueGate st") (simp_all add: effect_gate_cases)
  with present Some show ?thesis
    by (intro effect_editing_present [of _ i]) simp_all
qed

lemma react_stable:
  "effect_editing (react st) = react st \<and> effect_gate (react st) = react st \<and>
   effect_dispatch (react st) = react st"
proof -
  let ?b = "effect_gate (effect_editing st)"
  have editing_b: "effect_editing ?b = ?b"
    by (rule effect_gate_editing) (rule effect_editing_idem)
  have gate_b: "effect_gate ?b = ?b"
    by (rule effect_gate_idem)
  show ?thesis
  proof (cases "dispatch_next ?b")
    case None
    then have "react st = ?b" by (simp add: react_def effect_dispatch_blocked)
    with editing_b gate_b None show ?thesis
      by (simp add: effect_dispatch_blocked)
  next
    case (Some n)
    then have ready: "queuedEditID ?b = None" "queueGate ?b = Open"
      by (auto simp: dispatch_next_def split: if_splits)
    let ?c = "effect_dispatch ?b"
    have edit: "queuedEditID ?c = None" and gate: "queueGate ?c = Open"
      and sending: "sendingQueuedPrompt ?c"
      using ready by (simp_all add: effect_dispatch_sends [OF Some])
    from sending have "dispatch_next ?c = None" by (simp add: dispatch_next_blocked)
    then have "effect_dispatch ?c = ?c" by (rule effect_dispatch_blocked)
    moreover from edit have "effect_editing ?c = ?c" by (rule effect_editing_idle)
    moreover from gate have "effect_gate ?c = ?c" by (simp add: effect_gate_cases)
    ultimately show ?thesis by (simp add: react_def)
  qed
qed

subsection \<open>Ids of queued prompts are distinct\<close>

text \<open>
  Every queued prompt takes its id from the counter, which only grows, so in every
  reachable state the ids of the queue are distinct.
\<close>

lemma restore_next_id [simp]: "next_id (restoreExtmarksFromParts ps st) = next_id st"
proof -
  from restoreExtmarksFromParts_frame [of ps st] obtain x y z where
    "restoreExtmarksFromParts ps st =
       st\<lparr> input_extmarks := x, next_extmark_id := y, store_extmarkToPartIndex := z \<rparr>"
    by blast
  then show ?thesis by simp
qed

lemma submit_direct_next_id:
  "next_id (submit_direct m payload st) = Suc (next_id st)"
  by (simp add: submit_direct_def sendPrompt_def Let_def)

lemma submit_next_id: "next_id st \<le> next_id (submit st)"
proof -
  have "next_id (submit st) = next_id st \<or> next_id (submit st) = Suc (next_id st)"
    using submit_cases [of st]
  proof (elim disjE exE conjE)
    fix q assume "submit st = submit_queued_edit q (resolvePromptInput st) st"
    then show ?thesis by (simp add: submit_queued_edit_def clearPrompt_def Let_def)
  next
    assume "submit st = promptModelWarning st"
    then show ?thesis by (simp add: promptModelWarning_def)
  next
    fix m assume "submit st = submit_direct m (resolvePromptInput st) st"
    then show ?thesis by (simp add: submit_direct_next_id)
  next
    fix c assume "submit st = clearPrompt (st\<lparr>calls := calls st @ [c]\<rparr>)"
    then show ?thesis by (simp add: clearPrompt_def)
  qed simp_all
  then show ?thesis by auto
qed

lemma fresh_ids_submit: "fresh_ids st \<Longrightarrow> fresh_ids (submit st)"
proof -
  assume fresh: "fresh_ids st"
  have ids: "map qp_id (queuedPrompts (submit st)) = map qp_id (queuedPrompts st)"
    using submit_queue_ids [of st] by simp
  show ?thesis
    unfolding fresh_ids_def ids
    using fresh submit_next_id [of st] by (fastforce simp: fresh_ids_def)
qed

lemma queueAtEndOfLoop_cases:
  "queueAtEndOfLoop st = st \<or> queueAtEndOfLoop st = submit st \<or>
   queueAtEndOfLoop st = promptModelWarning st \<or>
   (\<exists>new. qp_id new = next_id st \<and>
      queuedPrompts (queueAtEndOfLoop st) = queuedPrompts st @ [new] \<and>
      next_id (queueAtEndOfLoop st) = Suc (next_id st))"
proof (cases "queues_at_end st")
  case True
  then obtain m where "local_model_current st = Some m" and "\<not> props_disabled st"
    "\<not> autocomplete_visible st" "\<not> no_session st" "status st \<noteq> Idle" "store_mode st = Normal"
    "trim (store_prompt_input st) \<noteq> []" "\<not> startsWith (trim (store_prompt_input st)) (js ''/'')"
    by (auto simp: queues_at_end_def)
  then show ?thesis
    by (simp add: queueAtEndOfLoop_appends)
next
  case False
  then show ?thesis
    by (auto simp: queues_at_end_def queueAtEndOfLoop_def Let_def split: option.splits)
qed

lemma fresh_ids_queueAtEndOfLoop: "fresh_ids st \<Longrightarrow> fresh_ids (queueAtEndOfLoop st)"
proof -
  assume fresh: "fresh_ids st"
  from queueAtEndOfLoop_cases [of st] show ?thesis
  proof (elim disjE exE conjE)
    assume "queueAtEndOfLoop st = st"
    with fresh show ?thesis by simp
  next
    assume "queueAtEndOfLoop st = submit st"
    with fresh show ?thesis by (simp add: fresh_ids_submit)
  next
    assume "queueAtEndOfLoop st = promptModelWarning st"
    with fresh show ?thesis by (simp add: fresh_ids_def promptModelWarning_def)
  next
    fix new
    assume "qp_id new = next_id st"
      "queuedPrompts (queueAtEndOfLoop st) = queuedPrompts st @ [new]"
      "next_id (queueAtEndOfLoop st) = Suc (next_id st)"
    with fresh show ?thesis
      by (fastforce simp: fresh_ids_def less_Suc_eq)
  qed
qed

lemma fresh_ids_handle: "fresh_ids st \<Longrightarrow> fresh_ids (handle e st)"
proof (cases e)
  case (ContentChange t marks)
  then show "fresh_ids st \<Longrightarrow> ?thesis"
    by (simp add: fresh_ids_def onContentChange_def syncExtmarksWithPromptParts_def
        split: prod.splits)
next
  case (SetPrompt t ps)
  then show "fresh_ids st \<Longrightarrow> ?thesis" by (simp add: fresh_ids_def)
next
  case Submit
  then show "fresh_ids st \<Longrightarrow> ?thesis" by (simp add: fresh_ids_submit)
next
  case QueueAtEndOfLoop
  then show "fresh_ids st \<Longrightarrow> ?thesis" by (simp add: fresh_ids_queueAtEndOfLoop)
next
  case EditQueuedUp
  then show "fresh_ids st \<Longrightarrow> ?thesis" by (simp add: fresh_ids_def editQueued_def Let_def)
next
  case EditQueuedDown
  then show "fresh_ids st \<Longrightarrow> ?thesis" by (simp add: fresh_ids_def editQueued_def Let_def)
next
  case Interrupt
  then show "fresh_ids st \<Longrightarrow> ?thesis"
    by (simp add: fresh_ids_def session_interrupt_def interrupt_onSelect_def Let_def)
next
  case InterruptTimeout
  then show "fresh_ids st \<Longrightarrow> ?thesis" by (simp add: fresh_ids_def interrupt_timeout_def)
next
  case (SessionChange s)
  then show "fresh_ids st \<Longrightarrow> ?thesis" by (simp add: fresh_ids_def session_changed_def)
next
  case (SendSettled b)
  then show "fresh_ids st \<Longrightarrow> ?thesis" by (simp add: fresh_ids_def send_settled_def)
next
  case EffectEditing
  then show "fresh_ids st \<Longrightarrow> ?thesis"
    by (simp add: fresh_ids_def effect_editing_def split: option.splits)
next
  case EffectGate
  then show "fresh_ids st \<Longrightarrow> ?thesis"
    by (simp add: fresh_ids_def effect_gate_cases split: gate.splits)
next
  case EffectDispatch
  then show "fresh_ids st \<Longrightarrow> ?thesis"
  proof (cases "dispatch_next st")
    case None
    with EffectDispatch show "fresh_ids st \<Longrightarrow> ?thesis"
      by (simp add: effect_dispatch_blocked)
  next
    case (Some n)
    assume fresh: "fresh_ids st"
    have "set (map qp_id (removeByID (qp_id n) (queuedPrompts st))) \<subseteq> set (map qp_id (queuedPrompts st))"
      using set_removeByID [of "qp_id n" "queuedPrompts st"] by auto
    with fresh have "fresh_ids (effect_dispatch st)"
      unfolding effect_dispatch_sends [OF Some] fresh_ids_def
      by (auto simp: distinct_removeByID)
    with EffectDispatch show ?thesis by simp
  qed
qed (simp_all add: fresh_ids_def)

lemma reachable_distinct_ids: "reachable st \<Longrightarrow> distinct (map qp_id (queuedPrompts st))"
proof -
  assume "reachable st"
  then have "fresh_ids st"
  proof (induction rule: reachable.induct)
    case (reachable_initial disabled sessionID statuses model agent)
    show ?case by (simp add: fresh_ids_def initial_def)
  next
    case (reachable_handle st e)
    then show ?case by (simp add: fresh_ids_handle)
  qed
  then show ?thesis by (simp add: fresh_ids_def)
qed

subsection \<open>The navigator and the edit of a queued prompt, computed\<close>

lemma editQueued_loads:
  assumes "\<not> props_disabled st" "\<not> no_session st" "store_mode st = Normal"
    "queuedPromptsForSessionNewest st = list"
    "next_cursor (queuedCursor st) d (length list) = int k" "k < length list"
    "qp_parts (list ! k) = []"
  shows "editQueued d st =
     st\<lparr> queuedCursor := Some k, queuedEditID := Some (qp_id (list ! k)),
         store_prompt_input := qp_inputText (list ! k), store_prompt_parts := [],
         input_extmarks := [], store_extmarkToPartIndex := Map.empty \<rparr>"
  using assms by (cases "list = []") (simp_all add: editQueued_def Let_def restoreExtmarksFromParts_Nil)

lemma three_queued_newest:
  "queuedPromptsForSessionNewest
     (three_queued\<lparr> queuedCursor := c, queuedEditID := i, store_prompt_input := t,
        store_prompt_parts := [], input_extmarks := [], store_extmarkToPartIndex := Map.empty \<rparr>) =
     [queued_message 2 (js ''message 3''), queued_message 1 (js ''message 2''),
      queued_message 0 (js ''message 1'')]"
  "queuedPromptsForSessionNewest three_queued =
     [queued_message 2 (js ''message 3''), queued_message 1 (js ''message 2''),
      queued_message 0 (js ''message 1'')]"
  by (simp_all add: three_queued_eq queuedPromptsForSessionNewest_def session_defs queued_message_def)

lemma up_from_unselected:
  "editQueued (- 1) three_queued = selected 0 2 (js ''message 3'')"
  unfolding selected_def
  by (subst editQueued_loads [where k = 0, OF _ _ _ three_queued_newest(2)])
    (simp_all add: three_queued_eq session_defs next_cursor_def queued_message_def)

lemma up_from_newest:
  "editQueued (- 1) (selected 0 2 (js ''message 3'')) = selected 2 0 (js ''message 1'')"
  unfolding selected_def
  by (subst editQueued_loads [where k = 2, OF _ _ _ three_queued_newest(1)])
    (simp_all add: three_queued_eq session_defs next_cursor_def queued_message_def)

lemma up_from_oldest:
  "editQueued (- 1) (selected 2 0 (js ''message 1'')) = selected 1 1 (js ''message 2'')"
  unfolding selected_def
  by (subst editQueued_loads [where k = 1, OF _ _ _ three_queued_newest(1)])
    (simp_all add: three_queued_eq session_defs next_cursor_def queued_message_def)

lemma up_from_middle:
  "editQueued (- 1) (selected 1 1 (js ''message 2'')) = selected 0 2 (js ''message 3'')"
  unfolding selected_def
  by (subst editQueued_loads [where k = 0, OF _ _ _ three_queued_newest(1)])
    (simp_all add: three_queued_eq session_defs next_cursor_def queued_message_def)




lemma turn_ended_eq:
  "turn_ended = two_queued\<lparr> sync_session_status := Map.empty \<rparr>"
  by (simp add: turn_ended_def two_queued_eq)

subsection \<open>Submit, the gate and the effects\<close>


lemma queueAtEndOfLoop_gate:
  "queueGate (queueAtEndOfLoop st) = queueGate st \<or>
   queueGate (queueAtEndOfLoop st) = queueGate (submit st)"
  by (simp add: queueAtEndOfLoop_def promptModelWarning_def clearPrompt_def Let_def
      split: option.splits)

lemma interrupt_gate:
  "queueGate (interrupt_onSelect st) =
     (if \<not> autocomplete_visible st \<and> input_focused st \<and> store_mode st = Normal \<and>
         \<not> no_session st \<and> 1 \<le> store_interrupt st
      then Paused else queueGate st)"
  by (cases "store_mode st") (auto simp: interrupt_onSelect_def Let_def)

text \<open>The gate changes by these moves only.\<close>

lemma gate_moves:
  "queueGate (handle e st) = queueGate st \<or>
   (e = Interrupt \<and> queueGate (handle e st) = Paused) \<or>
   ((\<exists>s. e = SessionChange s) \<and> queueGate (handle e st) = Open) \<or>
   ((e = Submit \<or> e = QueueAtEndOfLoop) \<and> queueGate st = Paused \<and>
      queueGate (handle e st) = WaitBusy) \<or>
   (e = EffectGate \<and> queueGate st = WaitBusy \<and> status st \<noteq> Idle \<and>
      queueGate (handle e st) = WaitIdle) \<or>
   (e = EffectGate \<and> queueGate st = WaitIdle \<and> status st = Idle \<and>
      queueGate (handle e st) = Open)"
proof (cases e)
  case Submit
  then show ?thesis by (simp add: submit_gate)
next
  case QueueAtEndOfLoop
  then show ?thesis
    using queueAtEndOfLoop_gate [of st] by (auto simp: submit_gate split: if_splits)
next
  case Interrupt
  then show ?thesis
    by (simp add: session_interrupt_def interrupt_gate)
next
  case InterruptTimeout
  then show ?thesis by (simp add: interrupt_timeout_def)
next
  case (SessionChange s)
  then show ?thesis by (simp add: session_changed_def)
next
  case (SendSettled fulfilled)
  then show ?thesis by (simp add: send_settled_def)
next
  case EffectEditing
  then show ?thesis by (simp add: effect_editing_def split: option.splits)
next
  case EffectGate
  then show ?thesis by (simp add: effect_gate_cases split: gate.splits)
next
  case EffectDispatch
  then show ?thesis
    by (simp add: effect_dispatch_def sendPrompt_def Let_def split: option.splits)
qed simp_all

subsection \<open>More example sessions, computed\<close>


lemma typing_hello_eq:
  "typing_hello = mounted\<lparr> store_prompt_input := js ''hello'' \<rparr>"
  by (simp add: typing_hello_def onContentChange_plain mounted_def initial_def)

lemma typing_usage_eq:
  "typing_usage = mounted\<lparr> store_prompt_input := js ''/usage'', autocomplete_visible := True \<rparr>"
  by (simp add: typing_usage_def onContentChange_plain mounted_def initial_def)

lemma short_texts:
  "trim (js ''hello'') = js ''hello''" "trim (js ''/usage'') = js ''/usage''"
  "js ''hello'' \<noteq> []" "js ''/usage'' \<noteq> []"
  "js ''hello'' \<noteq> js ''exit''" "js ''hello'' \<noteq> js ''quit''" "js ''hello'' \<noteq> js '':q''"
  "\<not> startsWith (js ''hello'') (js ''/usage'')" "\<not> startsWith (js ''hello'') (js ''/codexwho'')"
  "\<not> startsWith (js ''hello'') (js ''/codexswap'')" "\<not> startsWith (js ''hello'') (js ''/'')"
  "js ''/usage'' \<noteq> js ''exit''" "js ''/usage'' \<noteq> js ''quit''" "js ''/usage'' \<noteq> js '':q''"
  "startsWith (js ''/usage'') (js ''/usage'')" "startsWith (js ''/usage'') (js ''/'')"
  by (simp_all add: trim_def js_def is_space_def startsWith_def)

lemma submit_hello:
  "submit typing_hello =
     mounted\<lparr> next_id := 1,
       calls := [SessionPrompt \<lparr> si_sessionID = ''s'', si_model = (''p'', ''m''),
                   si_variant = None, si_agent = ''build'', si_inputText = js ''hello'',
                   si_parts = [], si_messageID = Some 0 \<rparr>,
                 HistoryAppend (js ''hello'') [] Normal, OnSubmit] \<rparr>"
proof -
  have direct: "submits_directly typing_hello"
    by (simp add: submits_directly_def submit_proceeds_def typing_hello_eq short_texts
        editingQueuedPrompt_def)
  have plain: "resolvePromptInput typing_hello = \<lparr> inputText = js ''hello'', nonTextParts = [] \<rparr>"
    by (subst resolvePromptInput_plain) (simp_all add: typing_hello_eq)
  have "submit typing_hello = submit_direct (''p'', ''m'') (resolvePromptInput typing_hello) typing_hello"
    using direct by (rule submit_direct_result) (simp add: typing_hello_eq)
  also have "\<dots> = mounted\<lparr> next_id := 1,
       calls := [SessionPrompt \<lparr> si_sessionID = ''s'', si_model = (''p'', ''m''),
                   si_variant = None, si_agent = ''build'', si_inputText = js ''hello'',
                   si_parts = [], si_messageID = Some 0 \<rparr>,
                 HistoryAppend (js ''hello'') [] Normal, OnSubmit] \<rparr>"
    unfolding plain
    by (simp add: submit_direct_def typing_hello_eq no_session_def current_session_def
        is_known_command_def sendPrompt_def Let_def mounted_def initial_def)
  finally show ?thesis .
qed

lemma go_on_texts:
  "trim (js ''go on'') = js ''go on''" "js ''go on'' \<noteq> []"
  "js ''go on'' \<noteq> js ''exit''" "js ''go on'' \<noteq> js ''quit''" "js ''go on'' \<noteq> js '':q''"
  "\<not> startsWith (js ''go on'') (js ''/usage'')" "\<not> startsWith (js ''go on'') (js ''/codexwho'')"
  "\<not> startsWith (js ''go on'') (js ''/codexswap'')" "\<not> startsWith (js ''go on'') (js ''/'')"
  by (simp_all add: trim_def js_def is_space_def startsWith_def)

lemmas effect_defs = react_def effect_editing_def effect_gate_def effect_dispatch_def
  dispatch_next_def sendPrompt_def Let_def

lemma lifecycle_trace:
  "trace lifecycle one_queued =
    [one_queued,
     one_queued\<lparr> store_interrupt := 1, pending_interrupt_timers := 1 \<rparr>,
     one_queued\<lparr> store_interrupt := 0, pending_interrupt_timers := 2, queueGate := Paused,
       calls := calls one_queued @ [SessionAbort ''s''] \<rparr>,
     one_queued\<lparr> store_interrupt := 0, pending_interrupt_timers := 2, queueGate := Paused,
       calls := calls one_queued @ [SessionAbort ''s''], sync_session_status := Map.empty \<rparr>,
     one_queued\<lparr> store_interrupt := 0, pending_interrupt_timers := 2, queueGate := Paused,
       calls := calls one_queued @ [SessionAbort ''s''], sync_session_status := Map.empty,
       store_prompt_input := js ''go on'' \<rparr>,
     one_queued\<lparr> store_interrupt := 0, pending_interrupt_timers := 2, queueGate := WaitBusy,
       calls := calls one_queued @
         [SessionAbort ''s'', go_on, HistoryAppend (js ''go on'') [] Normal, OnSubmit],
       sync_session_status := Map.empty, next_id := 2 \<rparr>,
     one_queued\<lparr> store_interrupt := 0, pending_interrupt_timers := 2, queueGate := WaitIdle,
       calls := calls one_queued @
         [SessionAbort ''s'', go_on, HistoryAppend (js ''go on'') [] Normal, OnSubmit],
       sync_session_status := [''s'' \<mapsto> Busy], next_id := 2 \<rparr>,
     one_queued\<lparr> store_interrupt := 0, pending_interrupt_timers := 2, queueGate := Open,
       calls := calls one_queued @
         [SessionAbort ''s'', go_on, HistoryAppend (js ''go on'') [] Normal, OnSubmit,
          sent (queued_message 0 (js ''message 1''))],
       sync_session_status := Map.empty, next_id := 2, sendingQueuedPrompt := True,
       queuedPrompts := [], pending_sends := 1 \<rparr>]"
  (is "_ = [?s0, ?s1, ?s2, ?s3, ?s4, ?s5, ?s6, ?s7]")
proof -
  have step1: "react (handle Interrupt ?s0) = ?s1"
    by (simp add: session_interrupt_def interrupt_enabled_def interrupt_onSelect_def
        one_queued_eq session_defs effect_defs)
  have step2: "react (handle Interrupt ?s1) = ?s2"
    by (simp add: session_interrupt_def interrupt_enabled_def interrupt_onSelect_def
        one_queued_eq session_defs effect_defs)
  have step3: "react (handle (StatusChange ''s'' None) ?s2) = ?s3"
    by (simp add: one_queued_eq session_defs effect_defs)
  have step4: "react (handle (ContentChange (js ''go on'') []) ?s3) = ?s4"
    by (simp add: onContentChange_plain one_queued_eq session_defs effect_defs)
  have direct: "submits_directly ?s4"
    by (simp add: submits_directly_def submit_proceeds_def go_on_texts editingQueuedPrompt_def
        one_queued_eq)
  have plain: "resolvePromptInput ?s4 = \<lparr> inputText = js ''go on'', nonTextParts = [] \<rparr>"
    by (subst resolvePromptInput_plain) (simp_all add: one_queued_eq)
  have "submit ?s4 = submit_direct (''p'', ''m'') (resolvePromptInput ?s4) ?s4"
    using direct by (rule submit_direct_result) (simp add: one_queued_eq)
  also have "\<dots> = ?s5"
    unfolding plain
    by (simp add: submit_direct_def one_queued_eq no_session_def current_session_def
        is_known_command_def sendPrompt_def Let_def go_on_def mounted_def initial_def)
  finally have submitted: "handle Submit ?s4 = ?s5" by simp
  have "react ?s5 = ?s5"
    by (simp add: one_queued_eq session_defs effect_defs)
  with submitted have step5: "react (handle Submit ?s4) = ?s5" by simp
  have step6: "react (handle (StatusChange ''s'' (Some Busy)) ?s5) = ?s6"
    by (simp add: one_queued_eq session_defs effect_defs)
  have step7: "react (handle (StatusChange ''s'' None) ?s6) = ?s7"
    by (simp add: one_queued_eq session_defs effect_defs sent_def queued_message_def)
  show ?thesis
    by (simp only: lifecycle_def trace.simps step1 step2 step3 step4 step5 step6 step7)
qed

section \<open>Queue preview (C8)\<close>

lemma length_js [simp]: "length (js s) = length s"
  by (simp add: js_def)

lemma replace_ws_runs_no_space:
  "\<forall>c \<in> set t. \<not> is_space c \<Longrightarrow> replace_ws_runs t = t"
  by (induction t) auto

lemma trim_no_space:
  "\<forall>c \<in> set t. \<not> is_space c \<Longrightarrow> trim t = t"
proof -
  assume clean: "\<forall>c \<in> set t. \<not> is_space c"
  then have "dropWhile is_space t = t"
    by (cases t) auto
  moreover from clean have "dropWhile is_space (rev t) = rev t"
    by (cases "t = []") (simp_all add: dropWhile_eq_self_iff hd_rev)
  ultimately show ?thesis
    by (simp add: trim_def)
qed

lemma oneLine_no_space:
  "\<forall>c \<in> set t. \<not> is_space c \<Longrightarrow> oneLine t = t"
  by (simp add: oneLine_def replace_ws_runs_no_space trim_no_space)

text \<open>
  C8, as amended. The limit is on the preview, not on the part of the text it shows: when
  the text, with every run of white space replaced by one space and trimmed, is longer
  than 80 code units, the preview is its first 77 code units followed by \<^verbatim>\<open>...\<close>, 80 code
  units in all; a text of at most 80 code units is shown whole.
\<close>

theorem queuedPreview_truncates_to_80:
  "(80 < length (oneLine t) \<longrightarrow>
      queuedPreview t = take 77 (oneLine t) @ js ''...'' \<and> length (queuedPreview t) = 80) \<and>
   (length (oneLine t) \<le> 80 \<longrightarrow> queuedPreview t = oneLine t)"
  by (simp add: queuedPreview_def slice_def)

text \<open>
  The theorem at a text of 81 letters, which is cut, and at a short text with white space
  to normalise, which is shown whole.
\<close>

theorem queuedPreview_truncates_to_80_witness:
  "80 < length (oneLine (replicate 81 0x61)) \<and>
   queuedPreview (replicate 81 0x61) = replicate 77 0x61 @ js ''...'' \<and>
   length (queuedPreview (replicate 81 0x61)) = 80 \<and>
   length (oneLine (js ''message 1'')) \<le> 80 \<and>
   queuedPreview (js ''  message \<newline>  1 '') = js ''message 1''"
proof -
  have a: "oneLine (replicate 81 0x61) = replicate 81 0x61"
    by (rule oneLine_no_space) (simp add: is_space_def)
  have b: "oneLine (js ''  message \<newline>  1 '') = js ''message 1''"
    by (simp add: oneLine_def trim_def js_def is_space_def)
  have c: "oneLine (js ''message 1'') = js ''message 1''"
    by (simp add: oneLine_def trim_def js_def is_space_def)
  show ?thesis
    using queuedPreview_truncates_to_80 [of "replicate 81 0x61"]
      queuedPreview_truncates_to_80 [of "js ''  message \<newline>  1 ''"]
    by (simp add: a b c)
qed

text \<open>
  C8 as stated fails: for a text of 81 letters the preview is not the first 80 code units
  followed by \<^verbatim>\<open>...\<close>, whether the 80 are counted in the text or in its normalised form.
\<close>

theorem queuedPreview_first_80_counterexample:
  "80 < length (oneLine (replicate 81 0x61)) \<and>
   queuedPreview (replicate 81 0x61) \<noteq> take 80 (replicate 81 0x61) @ js ''...'' \<and>
   queuedPreview (replicate 81 0x61) \<noteq> take 80 (oneLine (replicate 81 0x61)) @ js ''...''"
proof -
  have a: "oneLine (replicate 81 0x61) = replicate 81 0x61"
    by (rule oneLine_no_space) (simp add: is_space_def)
  have "length (queuedPreview (replicate 81 0x61)) = 80"
    by (simp add: queuedPreview_def slice_def a)
  moreover have "length (take 80 (replicate 81 (0x61 :: 16 word)) @ js ''...'') = 83"
    by simp
  ultimately show ?thesis
    by (auto simp: a)
qed

section \<open>Resolving the composition (C5, C6)\<close>

lemma splice_extmarks_append:
  "splice_extmarks (xs @ ys) m ps buf = splice_extmarks ys m ps (splice_extmarks xs m ps buf)"
  by (induction xs arbitrary: buf) auto

lemma separated_le: "separated pos es len \<Longrightarrow> pos \<le> len"
proof (induction es arbitrary: pos)
  case Nil
  then show ?case by simp
next
  case (Cons e es)
  then have "em_end e \<le> len" by simp
  with Cons.prems show ?case by simp
qed

lemma expansion_is_stored_text:
  "expansion_of m ps e = Some t \<Longrightarrow> stored_text m ps e = t"
  by (auto simp: expansion_of_def stored_text_def split: option.splits if_splits part.splits)

text \<open>
  The loop, run over the markers from the last to the first, leaves the text before
  \<open>pos\<close> as it was while it expands everything from \<open>pos\<close> on: the splices already made
  lie behind the markers still to come.
\<close>

lemma splice_descending:
  "separated pos (expanding m ps marks) (length buf) \<Longrightarrow>
   splice_extmarks (rev marks) m ps buf =
     take pos buf @ expand_from pos (stored_text m ps) (expanding m ps marks) buf"
proof (induction marks arbitrary: pos)
  case Nil
  then show ?case by (simp add: expanding_def slice_from_def)
next
  case (Cons e marks)
  show ?case
  proof (cases "expansion_of m ps e")
    case None
    with Cons show ?thesis
      by (simp add: expanding_def splice_extmarks_append)
  next
    case (Some t)
    with Cons.prems have sep: "pos \<le> em_start e" "em_start e \<le> em_end e"
      "separated (em_end e) (expanding m ps marks) (length buf)"
      by (simp_all add: expanding_def)
    from sep(3) have le: "em_end e \<le> length buf"
      by (rule separated_le)
    let ?rest = "expand_from (em_end e) (stored_text m ps) (expanding m ps marks) buf"
    have later: "splice_extmarks (rev marks) m ps buf = take (em_end e) buf @ ?rest"
      using Cons.IH [OF sep(3)] .
    have before: "take (em_start e) (take (em_end e) buf @ ?rest) = take (em_start e) buf"
      using sep(2) le by (simp add: min_def)
    have after: "drop (em_end e) (take (em_end e) buf @ ?rest) = ?rest"
      using le by simp
    have prefix: "take pos buf @ drop pos (take (em_start e) buf) = take (em_start e) buf"
      using sep(1) by (metis append_take_drop_id min.absorb1 take_take)
    have "splice_extmarks (rev (e # marks)) m ps buf =
            take (em_start e) (splice_extmarks (rev marks) m ps buf) @ t @
            drop (em_end e) (splice_extmarks (rev marks) m ps buf)"
      using Some by (simp add: splice_extmarks_append slice_def slice_from_def)
    also have "\<dots> = take (em_start e) buf @ t @ ?rest"
      unfolding later before after ..
    also have "\<dots> = take pos buf @
        expand_from pos (stored_text m ps) (expanding m ps (e # marks)) buf"
      using Some prefix by (simp add: expanding_def slice_def expansion_is_stored_text)
    finally show ?thesis .
  qed
qed

lemma two_pastes_state:
  "input_extmarks two_pastes =
     [\<lparr>em_id = 1, em_start = 2, em_end = 6\<rparr>, \<lparr>em_id = 2, em_start = 16, em_end = 19\<rparr>,
      \<lparr>em_id = 3, em_start = 9, em_end = 13\<rparr>]"
  "store_prompt_input two_pastes = js ''a [P1] b [P2] c [F]''"
  "store_prompt_parts two_pastes =
     [pasted (js ''one'') (js ''[P1]'') 2,
      FilePart (js ''image/png'') None (js ''data:'')
        (Some \<lparr> range_start = 16, range_end = 19, range_value = js ''[F]'' \<rparr>),
      pasted (js ''second'') (js ''[P2]'') 9]"
  by (simp_all add: two_pastes_def mounted_def restoreExtmarksFromParts_def initial_def
      pasted_def js_def)

lemma two_pastes_index:
  "store_extmarkToPartIndex two_pastes = [1 \<mapsto> 0, 2 \<mapsto> 1, 3 \<mapsto> 2]"
  by (simp add: two_pastes_def mounted_def restoreExtmarksFromParts_def initial_def pasted_def
      js_def numeral_2_eq_2 numeral_3_eq_3)

text \<open>
  C5, as amended. \<^verbatim>\<open>resolvePromptInput\<close> returns the parts that are not text parts, in
  their order, and it splices for every marker that is mapped to a text part with a
  non-empty stored text (the markers \<open>expanding\<close>; a text part whose stored text is empty
  keeps its placeholder). Walking the markers by descending start, no splice moves a range
  that is still to be replaced: when these markers are disjoint and within the text, the
  result is the raw text in which the range \<open>[start, end)\<close> of each of them, at its offsets
  in the raw text, is replaced by the stored text of its part.
\<close>

theorem resolvePromptInput_expands:
  "nonTextParts (resolvePromptInput st) = filter (\<lambda>p. \<not> is_text p) (store_prompt_parts st) \<and>
   (separated 0
      (expanding (store_extmarkToPartIndex st) (store_prompt_parts st)
         (rev (sortedExtmarks (input_extmarks st))))
      (length (store_prompt_input st)) \<longrightarrow>
    inputText (resolvePromptInput st) =
      expand_from 0 (stored_text (store_extmarkToPartIndex st) (store_prompt_parts st))
        (expanding (store_extmarkToPartIndex st) (store_prompt_parts st)
           (rev (sortedExtmarks (input_extmarks st))))
        (store_prompt_input st))"
  using splice_descending [of 0 "store_extmarkToPartIndex st" "store_prompt_parts st"
      "rev (sortedExtmarks (input_extmarks st))" "store_prompt_input st"]
  by (simp add: resolvePromptInput_def)

text \<open>
  The theorem at a prompt with two pasted texts and an image, the markers not in the
  order of their offsets: both placeholders are expanded, the image placeholder stays,
  and only the image is returned as a part.
\<close>

theorem resolvePromptInput_expands_witness:
  "separated 0
     (expanding (store_extmarkToPartIndex two_pastes) (store_prompt_parts two_pastes)
        (rev (sortedExtmarks (input_extmarks two_pastes))))
     (length (store_prompt_input two_pastes)) \<and>
   inputText (resolvePromptInput two_pastes) = js ''a one b second c [F]'' \<and>
   nonTextParts (resolvePromptInput two_pastes) =
     [FilePart (js ''image/png'') None (js ''data:'')
        (Some \<lparr> range_start = 16, range_end = 19, range_value = js ''[F]'' \<rparr>)]"
proof -
  have sorted: "rev (sortedExtmarks (input_extmarks two_pastes)) =
     [\<lparr>em_id = 1, em_start = 2, em_end = 6\<rparr>, \<lparr>em_id = 3, em_start = 9, em_end = 13\<rparr>,
      \<lparr>em_id = 2, em_start = 16, em_end = 19\<rparr>]"
    by (simp add: two_pastes_state sortedExtmarks_def)
  have live: "expanding (store_extmarkToPartIndex two_pastes) (store_prompt_parts two_pastes)
        (rev (sortedExtmarks (input_extmarks two_pastes))) =
     [\<lparr>em_id = 1, em_start = 2, em_end = 6\<rparr>, \<lparr>em_id = 3, em_start = 9, em_end = 13\<rparr>]"
    unfolding sorted
    by (simp add: expanding_def expansion_of_def two_pastes_state two_pastes_index pasted_def js_def)
  show ?thesis
    using resolvePromptInput_expands [of two_pastes]
    unfolding live
    by (simp add: two_pastes_state two_pastes_index stored_text_def pasted_def js_def
        slice_def slice_from_def)
qed

text \<open>
  C5 as stated fails for a text part whose stored text is empty: its marker is the
  marker of a text part, but the placeholder is not replaced by the stored text; the
  resolved text is the raw text.
\<close>

theorem resolvePromptInput_empty_text_counterexample:
  "text_markers (store_extmarkToPartIndex empty_paste) (store_prompt_parts empty_paste)
     (rev (sortedExtmarks (input_extmarks empty_paste))) =
     [\<lparr>em_id = 1, em_start = 0, em_end = 8\<rparr>] \<and>
   inputText (resolvePromptInput empty_paste) = js ''[Pasted] x'' \<and>
   inputText (resolvePromptInput empty_paste) \<noteq>
     expand_from 0 (stored_text (store_extmarkToPartIndex empty_paste) (store_prompt_parts empty_paste))
       (text_markers (store_extmarkToPartIndex empty_paste) (store_prompt_parts empty_paste)
          (rev (sortedExtmarks (input_extmarks empty_paste))))
       (store_prompt_input empty_paste)"
  by (simp add: empty_paste_def mounted_def restoreExtmarksFromParts_def initial_def pasted_def
      sortedExtmarks_def text_markers_def resolvePromptInput_def expansion_of_def
      stored_text_def slice_def slice_from_def js_def)

lemma splice_extmarks_no_text:
  "\<forall>p \<in> set ps. \<not> is_text p \<Longrightarrow> splice_extmarks marks m ps buf = buf"
proof (induction marks)
  case Nil
  show ?case by simp
next
  case (Cons e marks)
  have "\<not> is_text (ps ! i)" if "i < length ps" for i
    using that Cons.prems by simp
  then have "expansion_of m ps e = None"
    by (fastforce simp: expansion_of_def split: option.splits part.splits)
  with Cons show ?case by simp
qed

text \<open>
  C6. A composition without a text part resolves to its raw text, unchanged, and to its
  parts, all of them and in their order, whatever its markers are.
\<close>

theorem resolvePromptInput_without_text_parts:
  "\<forall>p \<in> set (store_prompt_parts st). \<not> is_text p \<Longrightarrow>
   inputText (resolvePromptInput st) = store_prompt_input st \<and>
   nonTextParts (resolvePromptInput st) = store_prompt_parts st"
  by (simp add: resolvePromptInput_def splice_extmarks_no_text)

text \<open>The theorem at a prompt with a file and an agent mention, each with its marker.\<close>

theorem resolvePromptInput_without_text_parts_witness:
  "list_all (\<lambda>p. \<not> is_text p) (store_prompt_parts two_references) \<and>
   length (input_extmarks two_references) = 2 \<and>
   inputText (resolvePromptInput two_references) = js ''see [F] with @build'' \<and>
   nonTextParts (resolvePromptInput two_references) =
     [FilePart (js ''image/png'') None (js ''data:'')
        (Some \<lparr> range_start = 4, range_end = 7, range_value = js ''[F]'' \<rparr>),
      AgentPart (js ''build'')
        (Some \<lparr> range_start = 13, range_end = 19, range_value = js ''@build'' \<rparr>)]"
proof -
  have parts: "store_prompt_parts two_references =
     [FilePart (js ''image/png'') None (js ''data:'')
        (Some \<lparr> range_start = 4, range_end = 7, range_value = js ''[F]'' \<rparr>),
      AgentPart (js ''build'')
        (Some \<lparr> range_start = 13, range_end = 19, range_value = js ''@build'' \<rparr>)]"
    and input: "store_prompt_input two_references = js ''see [F] with @build''"
    and marks: "length (input_extmarks two_references) = 2"
    by (simp_all add: two_references_def mounted_def restoreExtmarksFromParts_def initial_def js_def)
  have clean: "\<forall>p \<in> set (store_prompt_parts two_references). \<not> is_text p"
    by (simp add: parts)
  from resolvePromptInput_without_text_parts [OF clean] clean
  show ?thesis
    by (simp add: parts input marks)
qed

section \<open>Order of the tail queue (C1)\<close>



section \<open>Single flight (C2)\<close>

lemma first_in_flight_eq:
  "first_in_flight =
     two_queued\<lparr> sync_session_status := Map.empty,
       sendingQueuedPrompt := True,
       queuedPrompts := [queued_message 1 (js ''message 2'')],
       calls := calls two_queued @ [sent (queued_message 0 (js ''message 1''))],
       pending_sends := 1 \<rparr>"
proof -
  let ?idle = "handle (StatusChange ''s'' None) two_queued"
  have head: "dispatch_next ?idle = Some (queued_message 0 (js ''message 1''))"
    by (simp add: two_queued_eq dispatch_next_def session_defs queued_message_def)
  have first: "react ?idle =
     two_queued\<lparr> sync_session_status := Map.empty,
       sendingQueuedPrompt := True,
       queuedPrompts := [queued_message 1 (js ''message 2'')],
       calls := calls two_queued @ [sent (queued_message 0 (js ''message 1''))],
       pending_sends := 1 \<rparr>" (is "_ = ?flying")
    by (subst react_dispatches [OF _ _ head])
      (simp_all add: two_queued_eq queued_message_def)
  have busy: "react (handle (StatusChange ''s'' (Some Busy)) ?flying) =
      ?flying\<lparr> sync_session_status := [''s'' \<mapsto> Busy] \<rparr>"
    by (subst react_quiet)
      (simp_all add: two_queued_eq dispatch_next_def)
  have idle: "react (handle (StatusChange ''s'' None) (?flying\<lparr> sync_session_status := [''s'' \<mapsto> Busy] \<rparr>)) =
      ?flying"
    by (subst react_quiet)
      (simp_all add: two_queued_eq dispatch_next_def)
  have tick: "react (handle EffectDispatch ?flying) = ?flying"
    by (simp add: react_quiet effect_dispatch_blocked dispatch_next_def two_queued_eq)
  show ?thesis
    unfolding first_in_flight_def run_Cons run_Nil first busy idle tick ..
qed


lemma single_flight_handle: "single_flight st \<Longrightarrow> single_flight (handle e st)"
proof (cases e)
  case Interrupt
  then show "single_flight st \<Longrightarrow> ?thesis"
    by (simp add: single_flight_def session_interrupt_def interrupt_onSelect_def Let_def)
next
  case InterruptTimeout
  then show "single_flight st \<Longrightarrow> ?thesis"
    by (simp add: single_flight_def interrupt_timeout_def)
next
  case (SessionChange s)
  then show "single_flight st \<Longrightarrow> ?thesis"
    by (simp add: single_flight_def session_changed_def)
next
  case (SendSettled b)
  then show "single_flight st \<Longrightarrow> ?thesis"
    by (auto simp: single_flight_def send_settled_def Let_def split: if_splits)
next
  case EffectEditing
  then show "single_flight st \<Longrightarrow> ?thesis"
    by (simp add: single_flight_def effect_editing_def split: option.splits)
next
  case EffectGate
  then show "single_flight st \<Longrightarrow> ?thesis"
    by (simp add: single_flight_def effect_gate_def Let_def)
next
  case EffectDispatch
  then show "single_flight st \<Longrightarrow> ?thesis"
    by (auto simp: single_flight_def effect_dispatch_def dispatch_next_def sendPrompt_def Let_def
        split: option.splits if_splits)
qed (simp_all add: single_flight_def)

lemma reachable_single_flight: "reachable st \<Longrightarrow> single_flight st"
proof (induction rule: reachable.induct)
  case (reachable_initial disabled sessionID statuses model agent)
  show ?case by (simp add: single_flight_def initial_def)
next
  case (reachable_handle st e)
  then show ?case by (simp add: single_flight_handle)
qed

text \<open>
  C2. In every reachable state at most one queued send is pending, and the flag
  \<^verbatim>\<open>sendingQueuedPrompt\<close> is set exactly while one is: the dispatcher sets the flag in the
  same step that issues the send, and only the settling of the send clears it. While a
  send is pending the dispatcher sends nothing, and no event, whichever it is, raises the
  number of pending sends.
\<close>

theorem dispatch_single_flight:
  "reachable st \<Longrightarrow>
   pending_sends st \<le> 1 \<and>
   (sendingQueuedPrompt st \<longleftrightarrow> pending_sends st = 1) \<and>
   (0 < pending_sends st \<longrightarrow>
      dispatch_next st = None \<and> effect_dispatch st = st \<and>
      pending_sends (handle e st) \<le> pending_sends st)"
proof -
  assume "reachable st"
  then have flight: "single_flight st" by (rule reachable_single_flight)
  have blocked: "dispatch_next st = None \<and> effect_dispatch st = st" if "0 < pending_sends st"
    using flight that
    by (auto simp: single_flight_def dispatch_next_def effect_dispatch_def split: if_splits)
  have kept: "pending_sends (handle e st) \<le> pending_sends st" if "0 < pending_sends st"
    using that blocked
    by (cases e)
      (simp_all add: session_interrupt_def interrupt_onSelect_def Let_def interrupt_timeout_def
        session_changed_def effect_editing_def effect_gate_def send_settled_def
        split: option.splits)
  from flight blocked kept show ?thesis
    by (auto simp: single_flight_def split: if_splits)
qed

text \<open>
  The theorem at the session with two queued prompts after the turn has ended and the
  status has changed twice more: one send is pending, the log holds one queued send, and
  the second prompt is still queued.
\<close>

theorem dispatch_single_flight_witness:
  "reachable first_in_flight \<and> pending_sends first_in_flight = 1 \<and>
   sendingQueuedPrompt first_in_flight \<and> dispatch_next first_in_flight = None \<and>
   effect_dispatch first_in_flight = first_in_flight \<and>
   pending_sends (handle (StatusChange ''s'' None) first_in_flight) \<le> 1 \<and>
   filter (\<lambda>c. \<exists>i. c = SessionPrompt i) (calls first_in_flight) =
     [sent (queued_message 0 (js ''message 1''))] \<and>
   queuedPrompts first_in_flight = [queued_message 1 (js ''message 2'')]"
proof -
  have pending: "pending_sends first_in_flight = 1"
    and left: "queuedPrompts first_in_flight = [queued_message 1 (js ''message 2'')]"
    and log: "filter (\<lambda>c. \<exists>i. c = SessionPrompt i) (calls first_in_flight) =
       [sent (queued_message 0 (js ''message 1''))]"
    by (simp_all add: first_in_flight_eq two_queued_eq sent_def)
  from dispatch_single_flight [OF reachable_examples(5), of "StatusChange ''s'' None"]
    pending left log
  show ?thesis
    by (simp add: reachable_examples)
qed

section \<open>Lifecycle of the dispatch gate (C3)\<close>

text \<open>
  C3. An interrupt that takes the counter past the threshold (the second one) pauses the
  gate; a direct submit while the gate is paused moves it to \<^verbatim>\<open>wait_busy\<close>; the gate's
  effect moves \<^verbatim>\<open>wait_busy\<close> to \<^verbatim>\<open>wait_idle\<close> when the status is not idle, and leaves it
  otherwise; it moves \<^verbatim>\<open>wait_idle\<close> to \<^verbatim>\<open>open\<close> when the status is idle, and leaves it
  otherwise; it changes nothing while the gate is open or paused. While the gate is not
  open the dispatcher sends nothing. And no event moves the gate in another way: besides
  these moves there are only the interrupt, which pauses, and the change of session,
  which opens.
\<close>

theorem gate_lifecycle:
  "(\<not> autocomplete_visible st \<and> input_focused st \<and> store_mode st = Normal \<and> \<not> no_session st \<and>
      1 \<le> store_interrupt st \<longrightarrow> queueGate (interrupt_onSelect st) = Paused) \<and>
   (queueGate st = Paused \<and> submits_directly st \<longrightarrow> queueGate (submit st) = WaitBusy) \<and>
   (queueGate st = WaitBusy \<longrightarrow>
      queueGate (effect_gate st) = (if status st = Idle then WaitBusy else WaitIdle)) \<and>
   (queueGate st = WaitIdle \<longrightarrow>
      queueGate (effect_gate st) = (if status st = Idle then Open else WaitIdle)) \<and>
   (queueGate st = Open \<or> queueGate st = Paused \<longrightarrow> effect_gate st = st) \<and>
   (queueGate st \<noteq> Open \<longrightarrow> dispatch_next st = None \<and> effect_dispatch st = st) \<and>
   (queueGate (handle e st) = queueGate st \<or>
    (e = Interrupt \<and> queueGate (handle e st) = Paused) \<or>
    ((\<exists>s. e = SessionChange s) \<and> queueGate (handle e st) = Open) \<or>
    ((e = Submit \<or> e = QueueAtEndOfLoop) \<and> queueGate st = Paused \<and>
       queueGate (handle e st) = WaitBusy) \<or>
    (e = EffectGate \<and> queueGate st = WaitBusy \<and> status st \<noteq> Idle \<and>
       queueGate (handle e st) = WaitIdle) \<or>
    (e = EffectGate \<and> queueGate st = WaitIdle \<and> status st = Idle \<and>
       queueGate (handle e st) = Open))"
  using gate_moves [of e st]
  by (simp add: interrupt_gate submit_gate effect_gate_cases dispatch_next_blocked
      effect_dispatch_blocked)

text \<open>
  The theorem along a run from a running session with one queued prompt: the gate goes
  open, paused, \<^verbatim>\<open>wait_busy\<close>, \<^verbatim>\<open>wait_idle\<close>, open, and the queued prompt, which waits
  through the idle state of the paused gate, is sent when the gate is open again.
\<close>

theorem gate_lifecycle_witness:
  "map queueGate (trace lifecycle one_queued) =
     [Open, Open, Paused, Paused, Paused, WaitBusy, WaitIdle, Open] \<and>
   map (\<lambda>st. count_list (calls st) (sent (queued_message 0 (js ''message 1''))))
       (trace lifecycle one_queued) = [0, 0, 0, 0, 0, 0, 0, 1] \<and>
   map (\<lambda>st. length (queuedPromptsForSession st)) (trace lifecycle one_queued) =
     [1, 1, 1, 1, 1, 1, 1, 0] \<and>
   map status (trace lifecycle one_queued) = [Busy, Busy, Busy, Idle, Idle, Idle, Busy, Idle] \<and>
   submits_directly (trace lifecycle one_queued ! 4) \<and>
   queueGate (submit (trace lifecycle one_queued ! 4)) = WaitBusy \<and>
   queueGate (interrupt_onSelect (trace lifecycle one_queued ! 1)) = Paused \<and>
   dispatch_next (trace lifecycle one_queued ! 3) = None"
proof -
  let ?s1 = "trace lifecycle one_queued ! 1"
  let ?s3 = "trace lifecycle one_queued ! 3"
  let ?s4 = "trace lifecycle one_queued ! 4"
  have direct: "submits_directly ?s4" and paused: "queueGate ?s4 = Paused"
    unfolding lifecycle_trace
    by (simp_all add: submits_directly_def submit_proceeds_def go_on_texts
        editingQueuedPrompt_def one_queued_eq)
  have escalates: "\<not> autocomplete_visible ?s1 \<and> input_focused ?s1 \<and> store_mode ?s1 = Normal \<and>
      \<not> no_session ?s1 \<and> 1 \<le> store_interrupt ?s1"
    unfolding lifecycle_trace
    by (simp add: one_queued_eq no_session_def)
  have closed: "queueGate ?s3 \<noteq> Open"
    unfolding lifecycle_trace by simp
  from gate_lifecycle [of ?s4 Submit] gate_lifecycle [of ?s1 Interrupt]
    gate_lifecycle [of ?s3 EffectDispatch] direct paused escalates closed
  have moves: "queueGate (submit ?s4) = WaitBusy" "queueGate (interrupt_onSelect ?s1) = Paused"
    "dispatch_next ?s3 = None"
    by simp_all
  have traces: "map queueGate (trace lifecycle one_queued) =
     [Open, Open, Paused, Paused, Paused, WaitBusy, WaitIdle, Open]"
    "map (\<lambda>st. count_list (calls st) (sent (queued_message 0 (js ''message 1''))))
       (trace lifecycle one_queued) = [0, 0, 0, 0, 0, 0, 0, 1]"
    "map (\<lambda>st. length (queuedPromptsForSession st)) (trace lifecycle one_queued) =
     [1, 1, 1, 1, 1, 1, 1, 0]"
    "map status (trace lifecycle one_queued) = [Busy, Busy, Busy, Idle, Idle, Idle, Busy, Idle]"
    unfolding lifecycle_trace
    by (simp_all add: one_queued_eq session_defs sent_def go_on_def queued_message_def)
  from moves traces direct show ?thesis
    by simp
qed

section \<open>Queue navigator (C7)\<close>

text \<open>
  C7, evaluated on the code. With three prompts queued and none selected, four calls of
  \<^verbatim>\<open>editQueued(-1)\<close> load the newest entry, then the oldest, then the middle one, then
  the newest again: the cursor on the newest-first list goes 0, 2, 1, 0. The claim's
  order is newest, middle, oldest.
\<close>

theorem navigator_up_visits_newest_oldest_middle:
  "(let up = editQueued (- 1);
        first = up three_queued; second = up first; third = up second; fourth = up third
    in map store_prompt_input [first, second, third, fourth] =
         [js ''message 3'', js ''message 1'', js ''message 2'', js ''message 3''] \<and>
       map queuedCursor [first, second, third, fourth] = [Some 0, Some 2, Some 1, Some 0] \<and>
       map queuedEditID [first, second, third, fourth] = [Some 2, Some 0, Some 1, Some 2]) \<and>
   map qp_inputText (queuedPromptsForSessionNewest three_queued) =
     [js ''message 3'', js ''message 2'', js ''message 1'']"
  unfolding Let_def up_from_unselected up_from_newest up_from_oldest up_from_middle
    three_queued_newest
  by (simp add: selected_def queued_message_def)

section \<open>A rejected queued send (C4)\<close>

text \<open>
  C4. When the dispatcher has sent the head of the queue and the send is rejected, the
  state changes in three places only: the error toast (shown for three seconds) is
  added to the log, the flag is cleared and the send is no longer pending. The queue is
  the queue as the dispatcher left it, without the entry it sent, the session's queue is
  what followed that entry, and the gate is as it was. The ids of the queue are distinct
  in every reachable state (lemma \<open>reachable_distinct_ids\<close>).
\<close>

theorem rejected_send_is_dropped:
  "dispatch_next st = Some n \<Longrightarrow> distinct (map qp_id (queuedPrompts st)) \<Longrightarrow>
   send_settled False (effect_dispatch st) =
     (effect_dispatch st)
       \<lparr> calls := calls (effect_dispatch st) @ [Toast ToastError FailedToSendQueuedPrompt 3000],
         sendingQueuedPrompt := False, pending_sends := pending_sends st \<rparr> \<and>
   queuedPrompts (send_settled False (effect_dispatch st)) = queuedPrompts (effect_dispatch st) \<and>
   queuedPrompts (effect_dispatch st) = removeByID (qp_id n) (queuedPrompts st) \<and>
   qp_id n \<notin> qp_id ` set (queuedPrompts (send_settled False (effect_dispatch st))) \<and>
   queuedPromptsForSession st = n # queuedPromptsForSession (send_settled False (effect_dispatch st)) \<and>
   queueGate (send_settled False (effect_dispatch st)) = queueGate st \<and>
   queueGate (effect_dispatch st) = queueGate st"
proof -
  assume head: "dispatch_next st = Some n" and ids: "distinct (map qp_id (queuedPrompts st))"
  let ?popped = "effect_dispatch st"
  have popped: "?popped =
     st\<lparr> sendingQueuedPrompt := True,
         queuedPrompts := removeByID (qp_id n) (queuedPrompts st),
         calls := calls st @
           [SessionPrompt \<lparr> si_sessionID = qp_sessionID n, si_model = qp_model n,
              si_variant = qp_variant n, si_agent = qp_agent n,
              si_inputText = qp_inputText n, si_parts = qp_parts n, si_messageID = None \<rparr>],
         pending_sends := Suc (pending_sends st) \<rparr>"
    using head by (rule effect_dispatch_sends)
  then have pending: "0 < pending_sends ?popped" by simp
  have failed: "send_settled False ?popped =
     ?popped\<lparr> calls := calls ?popped @ [Toast ToastError FailedToSendQueuedPrompt 3000],
         sendingQueuedPrompt := False, pending_sends := pending_sends st \<rparr>"
    using send_settled_pending [OF pending, of False] popped by simp
  have queue: "queuedPrompts (send_settled False ?popped) = queuedPrompts ?popped"
    and gate: "queueGate (send_settled False ?popped) = queueGate ?popped"
    and same: "queuedPromptsForSession (send_settled False ?popped) = queuedPromptsForSession ?popped"
    unfolding failed by (simp_all add: session_defs)
  have removed: "queuedPrompts ?popped = removeByID (qp_id n) (queuedPrompts st)"
    and gate': "queueGate ?popped = queueGate st"
    unfolding popped by simp_all
  have gone: "qp_id n \<notin> qp_id ` set (queuedPrompts (send_settled False ?popped))"
    unfolding queue removed using ids by (rule removeByID_removes)
  have rest: "queuedPromptsForSession st = n # queuedPromptsForSession (send_settled False ?popped)"
    unfolding same using head ids by (rule session_queue_after_dispatch)
  from failed queue removed gone rest gate gate' show ?thesis
    by simp
qed

text \<open>
  The theorem at the session with two queued prompts whose turn has ended: the first
  prompt is sent and rejected; the second is still queued, and is the next to go.
\<close>

theorem rejected_send_is_dropped_witness:
  "dispatch_next turn_ended = Some (queued_message 0 (js ''message 1'')) \<and>
   queuedPrompts (send_settled False (effect_dispatch turn_ended)) =
     [queued_message 1 (js ''message 2'')] \<and>
   queueGate (send_settled False (effect_dispatch turn_ended)) = Open \<and>
   calls (send_settled False (effect_dispatch turn_ended)) =
     calls two_queued @
     [sent (queued_message 0 (js ''message 1'')), Toast ToastError FailedToSendQueuedPrompt 3000] \<and>
   dispatch_next (send_settled False (effect_dispatch turn_ended)) =
     Some (queued_message 1 (js ''message 2''))"
proof -
  have head: "dispatch_next turn_ended = Some (queued_message 0 (js ''message 1''))"
    by (simp add: turn_ended_eq two_queued_eq dispatch_next_def session_defs queued_message_def)
  have "reachable turn_ended"
    unfolding turn_ended_def by (intro reachable_handle reachable_examples)
  then have ids: "distinct (map qp_id (queuedPrompts turn_ended))"
    by (rule reachable_distinct_ids)
  have popped: "effect_dispatch turn_ended =
     turn_ended\<lparr> sendingQueuedPrompt := True,
         queuedPrompts := [queued_message 1 (js ''message 2'')],
         calls := calls two_queued @ [sent (queued_message 0 (js ''message 1''))],
         pending_sends := 1 \<rparr>"
    by (subst effect_dispatch_sends [OF head])
      (simp add: turn_ended_eq two_queued_eq queued_message_def sent_def)
  from rejected_send_is_dropped [OF head ids] head
  show ?thesis
    unfolding popped
    by (simp add: turn_ended_eq two_queued_eq dispatch_next_def session_defs queued_message_def)
qed

section \<open>A stale edit of a queued prompt (C9)\<close>



section \<open>Queueing falls back to submitting (C10)\<close>

text \<open>
  C10, as amended. \<^verbatim>\<open>queueAtEndOfLoop\<close> does nothing when the prompt is disabled or the
  autocomplete is open. Otherwise, when there is no session, or the status is idle, or
  the mode is not normal, or the trimmed input is empty or starts with \<^verbatim>\<open>/\<close>, it is
  \<^verbatim>\<open>submit\<close>: the state it returns is the state \<^verbatim>\<open>submit\<close> returns, and the queue has the
  entries it had, no entry being appended.
\<close>

theorem queueAtEndOfLoop_submits_instead:
  "(props_disabled st \<or> autocomplete_visible st \<longrightarrow> queueAtEndOfLoop st = st) \<and>
   (\<not> props_disabled st \<and> \<not> autocomplete_visible st \<and>
    (no_session st \<or> status st = Idle \<or> store_mode st \<noteq> Normal \<or>
     trim (store_prompt_input st) = [] \<or> startsWith (trim (store_prompt_input st)) (js ''/'')) \<longrightarrow>
    queueAtEndOfLoop st = submit st \<and>
    map qp_id (queuedPrompts (queueAtEndOfLoop st)) = map qp_id (queuedPrompts st))"
proof (intro conjI impI)
  assume "props_disabled st \<or> autocomplete_visible st"
  then show "queueAtEndOfLoop st = st"
    by (auto simp: queueAtEndOfLoop_def)
next
  assume "\<not> props_disabled st \<and> \<not> autocomplete_visible st \<and>
    (no_session st \<or> status st = Idle \<or> store_mode st \<noteq> Normal \<or>
     trim (store_prompt_input st) = [] \<or> startsWith (trim (store_prompt_input st)) (js ''/''))"
  then show same: "queueAtEndOfLoop st = submit st"
    by (auto simp: queueAtEndOfLoop_def Let_def)
  show "map qp_id (queuedPrompts (queueAtEndOfLoop st)) = map qp_id (queuedPrompts st)"
    unfolding same by (simp add: submit_queue_ids)
qed

text \<open>
  The theorem at an idle session with \<^verbatim>\<open>hello\<close> typed: the prompt is sent at once and
  nothing is queued; with the prompt disabled nothing happens.
\<close>

theorem queueAtEndOfLoop_submits_instead_witness:
  "status typing_hello = Idle \<and>
   queueAtEndOfLoop typing_hello = submit typing_hello \<and>
   queuedPrompts (queueAtEndOfLoop typing_hello) = [] \<and>
   calls (queueAtEndOfLoop typing_hello) =
     [SessionPrompt \<lparr> si_sessionID = ''s'', si_model = (''p'', ''m''),
         si_variant = None, si_agent = ''build'', si_inputText = js ''hello'',
         si_parts = [], si_messageID = Some 0 \<rparr>,
      HistoryAppend (js ''hello'') [] Normal, OnSubmit] \<and>
   queueAtEndOfLoop (handle (SetDisabled True) typing_hello) = handle (SetDisabled True) typing_hello"
proof -
  have idle: "status typing_hello = Idle" "\<not> props_disabled typing_hello"
    "\<not> autocomplete_visible typing_hello"
    "props_disabled (handle (SetDisabled True) typing_hello)"
    by (simp_all add: typing_hello_eq session_defs)
  from queueAtEndOfLoop_submits_instead [of typing_hello]
    queueAtEndOfLoop_submits_instead [of "handle (SetDisabled True) typing_hello"] idle
  show ?thesis
    by (simp add: submit_hello)
qed

text \<open>
  C10 as stated fails while the autocomplete is open: with \<^verbatim>\<open>/usage\<close> typed in an idle
  session, \<^verbatim>\<open>queueAtEndOfLoop\<close> returns at its autocomplete check and calls nothing,
  whereas \<^verbatim>\<open>submit\<close> shows the usage and clears the prompt.
\<close>

theorem queueAtEndOfLoop_autocomplete_counterexample:
  "status typing_usage = Idle \<and>
   startsWith (trim (store_prompt_input typing_usage)) (js ''/'') \<and>
   queueAtEndOfLoop typing_usage = typing_usage \<and>
   calls (queueAtEndOfLoop typing_usage) = [] \<and>
   calls (submit typing_usage) = [ShowUsage (js ''/usage''), OnSubmit] \<and>
   queueAtEndOfLoop typing_usage \<noteq> submit typing_usage"
proof -
  have stays: "queueAtEndOfLoop typing_usage = typing_usage"
    by (simp add: queueAtEndOfLoop_def typing_usage_eq)
  have shown: "calls (submit typing_usage) = [ShowUsage (js ''/usage''), OnSubmit]"
    by (simp add: submit_def typing_usage_eq short_texts clearPrompt_def Let_def)
  have log: "calls typing_usage = []"
    by (simp add: typing_usage_eq)
  from shown log have "submit typing_usage \<noteq> typing_usage"
    by auto
  with stays shown log show ?thesis
    by (simp add: typing_usage_eq session_defs short_texts)
qed

end
